theory Spec2Isabelle
  imports Complex_Main
begin

section \<open>Geometry of the squircle path (scripts/generate\_icon.py)\<close>

text \<open>
  The script computes with Python floats. They are modelled here by the real numbers:
  every product, quotient and comparison below is the exact one, and rounding is not
  modelled.
\<close>

datatype point = NSPoint (px: real) (py: real)

text \<open>
  The calls the script makes on an \<open>NSBezierPath\<close>, in the order it makes them. The
  arguments of \<open>CurveTo\<close> are in the order of
  \<open>curveToPoint_controlPoint1_controlPoint2_\<close>: end point, first control point, second
  control point.
\<close>

datatype path_element =
    MoveTo point
  | LineTo point
  | CurveTo point point point
  | ClosePath

type_synonym bezier_path = "path_element list"

definition LIMIT_FACTOR :: real where "LIMIT_FACTOR = 1.52866483"
definition TOP_RIGHT_P1 :: real where "TOP_RIGHT_P1 = 1.52866483"
definition TOP_RIGHT_P2 :: real where "TOP_RIGHT_P2 = 1.08849323"
definition TOP_RIGHT_P3 :: real where "TOP_RIGHT_P3 = 0.86840689"
definition TOP_RIGHT_P4 :: real where "TOP_RIGHT_P4 = 0.66993427"
definition TOP_RIGHT_P5 :: real where "TOP_RIGHT_P5 = 0.63149399"
definition TOP_RIGHT_P6 :: real where "TOP_RIGHT_P6 = 0.37282392"
definition TOP_RIGHT_P7 :: real where "TOP_RIGHT_P7 = 0.16906013"
definition TOP_RIGHT_CP1 :: real where "TOP_RIGHT_CP1 = 0.06549600"
definition TOP_RIGHT_CP2 :: real where "TOP_RIGHT_CP2 = 0.07491100"
definition TOP_RIGHT_CP3 :: real where "TOP_RIGHT_CP3 = 0.16905899"
definition TOP_RIGHT_CP4 :: real where "TOP_RIGHT_CP4 = 0.37282401"

text \<open>Lines 44 to 47: the corner radius and its clamp.\<close>

definition corner_radius :: "real \<Rightarrow> real \<Rightarrow> real" where
  "corner_radius width height = min width height * 0.22"

definition max_radius :: "real \<Rightarrow> real \<Rightarrow> real" where
  "max_radius width height = min width height / 2"

definition limited_radius :: "real \<Rightarrow> real \<Rightarrow> real" where
  "limited_radius width height =
     min (corner_radius width height) (max_radius width height / LIMIT_FACTOR)"

text \<open>
  Lines 54 to 127: the path calls, for a radius \<open>r\<close> and the four edges (the source's
  \<open>top\<close> is written \<open>top'\<close>).
\<close>

definition squircle_elements :: "real \<Rightarrow> real \<Rightarrow> real \<Rightarrow> real \<Rightarrow> real \<Rightarrow> bezier_path" where
  "squircle_elements r left right top' bottom =
   [ MoveTo (NSPoint (left + r * TOP_RIGHT_P1) top'),
     LineTo (NSPoint (right - r * TOP_RIGHT_P1) top'),
     CurveTo (NSPoint (right - r * TOP_RIGHT_P4) (top' - r * TOP_RIGHT_CP1))
             (NSPoint (right - r * TOP_RIGHT_P2) top')
             (NSPoint (right - r * TOP_RIGHT_P3) top'),
     CurveTo (NSPoint (right - r * TOP_RIGHT_CP2) (top' - r * TOP_RIGHT_P5))
             (NSPoint (right - r * TOP_RIGHT_P6) (top' - r * TOP_RIGHT_CP3))
             (NSPoint (right - r * TOP_RIGHT_P7) (top' - r * TOP_RIGHT_CP4)),
     CurveTo (NSPoint right (top' - r * TOP_RIGHT_P1))
             (NSPoint right (top' - r * TOP_RIGHT_P3))
             (NSPoint right (top' - r * TOP_RIGHT_P2)),
     LineTo (NSPoint right (bottom + r * TOP_RIGHT_P1)),
     CurveTo (NSPoint (right - r * TOP_RIGHT_CP1) (bottom + r * TOP_RIGHT_P4))
             (NSPoint right (bottom + r * TOP_RIGHT_P2))
             (NSPoint right (bottom + r * TOP_RIGHT_P3)),
     CurveTo (NSPoint (right - r * TOP_RIGHT_P5) (bottom + r * TOP_RIGHT_CP2))
             (NSPoint (right - r * TOP_RIGHT_CP3) (bottom + r * TOP_RIGHT_P6))
             (NSPoint (right - r * TOP_RIGHT_CP4) (bottom + r * TOP_RIGHT_P7)),
     CurveTo (NSPoint (right - r * TOP_RIGHT_P1) bottom)
             (NSPoint (right - r * TOP_RIGHT_P3) bottom)
             (NSPoint (right - r * TOP_RIGHT_P2) bottom),
     LineTo (NSPoint (left + r * TOP_RIGHT_P1) bottom),
     CurveTo (NSPoint (left + r * TOP_RIGHT_P4) (bottom + r * TOP_RIGHT_CP1))
             (NSPoint (left + r * TOP_RIGHT_P2) bottom)
             (NSPoint (left + r * TOP_RIGHT_P3) bottom),
     CurveTo (NSPoint (left + r * TOP_RIGHT_CP2) (bottom + r * TOP_RIGHT_P5))
             (NSPoint (left + r * TOP_RIGHT_P6) (bottom + r * TOP_RIGHT_CP3))
             (NSPoint (left + r * TOP_RIGHT_P7) (bottom + r * TOP_RIGHT_CP4)),
     CurveTo (NSPoint left (bottom + r * TOP_RIGHT_P1))
             (NSPoint left (bottom + r * TOP_RIGHT_P3))
             (NSPoint left (bottom + r * TOP_RIGHT_P2)),
     LineTo (NSPoint left (top' - r * TOP_RIGHT_P1)),
     CurveTo (NSPoint (left + r * TOP_RIGHT_CP1) (top' - r * TOP_RIGHT_P4))
             (NSPoint left (top' - r * TOP_RIGHT_P2))
             (NSPoint left (top' - r * TOP_RIGHT_P3)),
     CurveTo (NSPoint (left + r * TOP_RIGHT_P5) (top' - r * TOP_RIGHT_CP2))
             (NSPoint (left + r * TOP_RIGHT_CP3) (top' - r * TOP_RIGHT_P6))
             (NSPoint (left + r * TOP_RIGHT_CP4) (top' - r * TOP_RIGHT_P7)),
     CurveTo (NSPoint (left + r * TOP_RIGHT_P1) top')
             (NSPoint (left + r * TOP_RIGHT_P3) top')
             (NSPoint (left + r * TOP_RIGHT_P2) top'),
     ClosePath ]"

definition create_squircle_path :: "real \<Rightarrow> real \<Rightarrow> real \<Rightarrow> real \<Rightarrow> bezier_path" where
  "create_squircle_path x y width height =
     (let r = limited_radius width height;
          left = x;
          right = x + width;
          top' = y + height;
          bottom = y
      in squircle_elements r left right top' bottom)"

subsection \<open>What a path draws\<close>

text \<open>
  The toolkit's reading of a path: each \<open>LineTo\<close> draws a straight segment from the
  current point, each \<open>CurveTo\<close> a cubic Bezier segment from the current point, and
  \<open>ClosePath\<close> a straight segment back to the point of the last \<open>MoveTo\<close>.
\<close>

datatype segment =
    Line point point
  | Cubic point point point point

fun segments_from :: "point \<Rightarrow> point \<Rightarrow> path_element list \<Rightarrow> segment list" where
  "segments_from s c [] = []"
| "segments_from s c (MoveTo p # es) = segments_from p p es"
| "segments_from s c (LineTo p # es) = Line c p # segments_from s p es"
| "segments_from s c (CurveTo p c1 c2 # es) = Cubic c c1 c2 p # segments_from s p es"
| "segments_from s c (ClosePath # es) = Line c s # segments_from s s es"

text \<open>A path that does not begin with a \<open>MoveTo\<close> has no current point and draws nothing.\<close>

fun segments :: "bezier_path \<Rightarrow> segment list" where
  "segments (MoveTo p # es) = segments_from p p es"
| "segments es = []"

definition bernstein :: "real \<Rightarrow> real \<Rightarrow> real \<Rightarrow> real \<Rightarrow> real \<Rightarrow> real" where
  "bernstein t a b c d =
     (1 - t) ^ 3 * a + 3 * (1 - t) ^ 2 * t * b + 3 * (1 - t) * t ^ 2 * c + t ^ 3 * d"

fun seg_point :: "segment \<Rightarrow> real \<Rightarrow> point" where
  "seg_point (Line a b) t =
     NSPoint ((1 - t) * px a + t * px b) ((1 - t) * py a + t * py b)"
| "seg_point (Cubic p0 c1 c2 p3) t =
     NSPoint (bernstein t (px p0) (px c1) (px c2) (px p3))
             (bernstein t (py p0) (py c1) (py c2) (py p3))"

definition on_contour :: "bezier_path \<Rightarrow> point \<Rightarrow> bool" where
  "on_contour path p =
     (\<exists>sg \<in> set (segments path). \<exists>t. 0 \<le> t \<and> t \<le> 1 \<and> seg_point sg t = p)"

text \<open>The current point after a sequence of path calls.\<close>

fun pen_after :: "point \<Rightarrow> point \<Rightarrow> path_element list \<Rightarrow> point" where
  "pen_after s c [] = c"
| "pen_after s c (MoveTo p # es) = pen_after p p es"
| "pen_after s c (LineTo p # es) = pen_after s p es"
| "pen_after s c (CurveTo p c1 c2 # es) = pen_after s p es"
| "pen_after s c (ClosePath # es) = pen_after s s es"

text \<open>
  A closed contour: one \<open>MoveTo\<close>, then drawing calls that lead back to the point of the
  \<open>MoveTo\<close>, then one final \<open>ClosePath\<close>.
\<close>

fun is_drawing :: "path_element \<Rightarrow> bool" where
  "is_drawing (LineTo p) = True"
| "is_drawing (CurveTo p c1 c2) = True"
| "is_drawing e = False"

fun closed_contour :: "bezier_path \<Rightarrow> bool" where
  "closed_contour (MoveTo s # es) =
     (es \<noteq> [] \<and> last es = ClosePath \<and> list_all is_drawing (butlast es)
      \<and> pen_after s s (butlast es) = s)"
| "closed_contour es = False"

definition in_rect :: "real \<Rightarrow> real \<Rightarrow> real \<Rightarrow> real \<Rightarrow> point \<Rightarrow> bool" where
  "in_rect x y width height p =
     (x \<le> px p \<and> px p \<le> x + width \<and> y \<le> py p \<and> py p \<le> y + height)"

text \<open>The control points of a segment.\<close>

fun seg_ctrl :: "segment \<Rightarrow> point list" where
  "seg_ctrl (Line a b) = [a, b]"
| "seg_ctrl (Cubic p0 c1 c2 p3) = [p0, c1, c2, p3]"


subsection \<open>Rotation about the centre, and the control polygon\<close>

text \<open>
  A quarter turn (clockwise, with the y axis pointing up as in the toolkit's default
  coordinates) about a centre \<open>c\<close>, and the contour being carried onto itself by it.
\<close>

definition rect_center :: "real \<Rightarrow> real \<Rightarrow> real \<Rightarrow> real \<Rightarrow> point" where
  "rect_center x y width height = NSPoint (x + width / 2) (y + height / 2)"

definition rot90 :: "point \<Rightarrow> point \<Rightarrow> point" where
  "rot90 c p = NSPoint (px c + (py p - py c)) (py c - (px p - px c))"

definition rotation_symmetric :: "bezier_path \<Rightarrow> point \<Rightarrow> bool" where
  "rotation_symmetric path c = (\<forall>p. on_contour path (rot90 c p) = on_contour path p)"

text \<open>
  The control polygon of a path: its end points and control points in drawing order. A
  path is convex-cornered when this polygon never changes its direction of turning: the
  cross products of consecutive edges, taken around the closed polygon, all have one
  sign.
\<close>

fun vertices_from :: "point \<Rightarrow> path_element list \<Rightarrow> point list" where
  "vertices_from s [] = []"
| "vertices_from s (MoveTo p # es) = p # vertices_from p es"
| "vertices_from s (LineTo p # es) = p # vertices_from s es"
| "vertices_from s (CurveTo p c1 c2 # es) = c1 # c2 # p # vertices_from s es"
| "vertices_from s (ClosePath # es) = s # vertices_from s es"

fun control_polygon :: "bezier_path \<Rightarrow> point list" where
  "control_polygon (MoveTo p # es) = p # vertices_from p es"
| "control_polygon es = []"

definition cross :: "point \<Rightarrow> point \<Rightarrow> point \<Rightarrow> real" where
  "cross a b c = (px b - px a) * (py c - py b) - (py b - py a) * (px c - px b)"

fun turns :: "point list \<Rightarrow> real list" where
  "turns (a # b # c # ps) = cross a b c # turns (b # c # ps)"
| "turns ps = []"

definition convex_cornered :: "bezier_path \<Rightarrow> bool" where
  "convex_cornered path =
     (let v = control_polygon path; ks = turns (v @ take 2 v)
      in list_all (\<lambda>k. k \<le> 0) ks \<or> list_all (\<lambda>k. 0 \<le> k) ks)"

fun rot_seg :: "point \<Rightarrow> segment \<Rightarrow> segment" where
  "rot_seg c (Line a b) = Line (rot90 c a) (rot90 c b)"
| "rot_seg c (Cubic p0 c1 c2 p3) = Cubic (rot90 c p0) (rot90 c c1) (rot90 c c2) (rot90 c p3)"


section \<open>Drawing: the graphics context (scripts/generate\_icon.py, lines 139 to 228)\<close>

datatype rect = NSMakeRect real real real real

datatype color = ColorWithCalibratedRGBA real real real real

datatype compositing = NSCompositingOperationSourceOver

text \<open>
  What a context has painted on its bitmap, in order. Each entry keeps the clip that was in
  force when it was painted: the paths added with \<open>addClip\<close>, whose common interior is
  the region that may be painted.
\<close>

datatype 'i paint =
    DrawImage 'i rect rect compositing real "bezier_path list"
  | StrokePath bezier_path real color "bezier_path list"

record gstate =
  clip :: "bezier_path list"
  stroke_color :: color

record 'i graphics_context =
  gs :: gstate
  saved :: "gstate list"
  should_antialias :: bool
  image_interpolation :: int
  canvas :: "'i paint list"

record 'i bitmap =
  pixelsWide :: int
  pixelsHigh :: int
  painted :: "'i paint list"

text \<open>An \<open>NSImage\<close> read from a file: only its size matters to the script.\<close>

record source_image =
  size_width :: real
  size_height :: real

text \<open>An \<open>NSImage\<close> built by the script: its nominal size and its one bitmap.\<close>

record 'i ns_image =
  image_size :: "real \<times> real"
  representation :: "'i bitmap"

definition graphicsContextWithBitmapImageRep :: "'i graphics_context" where
  "graphicsContextWithBitmapImageRep =
     \<lparr> gs = \<lparr> clip = [], stroke_color = ColorWithCalibratedRGBA 0 0 0 1 \<rparr>,
       saved = [], should_antialias = True, image_interpolation = 0, canvas = [] \<rparr>"

definition setShouldAntialias :: "bool \<Rightarrow> 'i graphics_context \<Rightarrow> 'i graphics_context" where
  "setShouldAntialias b ctx = ctx \<lparr> should_antialias := b \<rparr>"

definition setImageInterpolation :: "int \<Rightarrow> 'i graphics_context \<Rightarrow> 'i graphics_context" where
  "setImageInterpolation n ctx = ctx \<lparr> image_interpolation := n \<rparr>"

definition saveGraphicsState :: "'i graphics_context \<Rightarrow> 'i graphics_context" where
  "saveGraphicsState ctx = ctx \<lparr> saved := gs ctx # saved ctx \<rparr>"

text \<open>Restoring with nothing saved leaves the context as it is.\<close>

definition restoreGraphicsState :: "'i graphics_context \<Rightarrow> 'i graphics_context" where
  "restoreGraphicsState ctx =
     (case saved ctx of [] \<Rightarrow> ctx | g # rest \<Rightarrow> ctx \<lparr> gs := g, saved := rest \<rparr>)"

definition addClip :: "bezier_path \<Rightarrow> 'i graphics_context \<Rightarrow> 'i graphics_context" where
  "addClip path ctx = ctx \<lparr> gs := (gs ctx) \<lparr> clip := clip (gs ctx) @ [path] \<rparr> \<rparr>"

definition drawInRect_fromRect_operation_fraction ::
  "'i \<Rightarrow> rect \<Rightarrow> rect \<Rightarrow> compositing \<Rightarrow> real \<Rightarrow> 'i graphics_context \<Rightarrow> 'i graphics_context" where
  "drawInRect_fromRect_operation_fraction image' dst src operation fraction ctx =
     ctx \<lparr> canvas := canvas ctx @ [DrawImage image' dst src operation fraction (clip (gs ctx))] \<rparr>"

definition setStroke :: "color \<Rightarrow> 'i graphics_context \<Rightarrow> 'i graphics_context" where
  "setStroke c ctx = ctx \<lparr> gs := (gs ctx) \<lparr> stroke_color := c \<rparr> \<rparr>"

text \<open>
  \<open>stroke\<close> takes the path together with the line width \<open>setLineWidth_\<close> gave it, and
  paints with the stroke colour and the clip of the current graphics state.
\<close>

definition stroke :: "bezier_path \<Rightarrow> real \<Rightarrow> 'i graphics_context \<Rightarrow> 'i graphics_context" where
  "stroke path lineWidth ctx =
     ctx \<lparr> canvas := canvas ctx
              @ [StrokePath path lineWidth (stroke_color (gs ctx)) (clip (gs ctx))] \<rparr>"

text \<open>Lines 139 to 201 (the source's \<open>size\<close> and \<open>image\<close> are written \<open>size'\<close> and \<open>image'\<close>).\<close>

definition create_icon :: "source_image \<Rightarrow> int \<Rightarrow> source_image ns_image" where
  "create_icon source_image size' =
     (let ctx = graphicsContextWithBitmapImageRep;
          ctx = setShouldAntialias True ctx;
          icon_size = real_of_int size' * 0.8125;
          margin = (real_of_int size' - icon_size) / 2;
          squircle_path = create_squircle_path margin margin icon_size icon_size;
          ctx = saveGraphicsState ctx;
          ctx = addClip squircle_path ctx;
          crop_ratio = 0.15;
          crop_px = size_width source_image * crop_ratio;
          ctx = drawInRect_fromRect_operation_fraction source_image
                  (NSMakeRect margin margin icon_size icon_size)
                  (NSMakeRect crop_px crop_px (size_width source_image - crop_px * 2)
                     (size_height source_image - crop_px * 2))
                  NSCompositingOperationSourceOver 1.0 ctx;
          ctx = restoreGraphicsState ctx;
          bevel_offset = real_of_int size' * 0.004;
          stroke_width = real_of_int size' * 0.008;
          ctx = saveGraphicsState ctx;
          ctx = addClip squircle_path ctx;
          highlight_path = create_squircle_path (margin + bevel_offset) (margin - bevel_offset)
                             icon_size icon_size;
          ctx = setStroke (ColorWithCalibratedRGBA 1.0 1.0 1.0 0.5) ctx;
          ctx = stroke highlight_path stroke_width ctx;
          shadow_path = create_squircle_path (margin - bevel_offset) (margin + bevel_offset)
                          icon_size icon_size;
          ctx = setStroke (ColorWithCalibratedRGBA 0.0 0.0 0.0 0.25) ctx;
          ctx = stroke shadow_path stroke_width ctx;
          ctx = restoreGraphicsState ctx
      in \<lparr> image_size = (real_of_int size', real_of_int size'),
           representation =
             \<lparr> pixelsWide = size', pixelsHigh = size', painted = canvas ctx \<rparr> \<rparr>)"

section \<open>Files: paths, text and the manifest (lines 131 to 136 and 204 to 270)\<close>

text \<open>
  A \<open>pathlib\<close> path is its list of parts; \<open>/\<close> appends a part, \<open>name\<close> is the last
  part, and \<open>str\<close> joins the parts with slashes (a leading root part \<open>/\<close> is not
  doubled, and the path without parts is written as a dot).
\<close>

type_synonym path = "string list"

definition joinpath :: "path \<Rightarrow> string \<Rightarrow> path" where
  "joinpath p s = p @ [s]"

definition name :: "path \<Rightarrow> string" where
  "name p = (if p = [] then [] else last p)"

fun join_parts :: "string list \<Rightarrow> string" where
  "join_parts [] = []"
| "join_parts [s] = s"
| "join_parts (s # t # ts) = s @ ''/'' @ join_parts (t # ts)"

definition str_path :: "path \<Rightarrow> string" where
  "str_path p =
     (if p = [] then ''.''
      else if hd p = ''/'' then ''/'' @ join_parts (tl p)
      else join_parts p)"

text \<open>Python's \<open>str\<close> of an integer, as the f-strings use it.\<close>

definition digit_char :: "nat \<Rightarrow> char" where
  "digit_char n = ''0123456789'' ! (n mod 10)"

function str_nat :: "nat \<Rightarrow> string" where
  "str_nat n = (if n < 10 then [digit_char n] else str_nat (n div 10) @ [digit_char (n mod 10)])"
  by pat_completeness auto
termination
  by (relation "measure id") auto

declare str_nat.simps [simp del]

definition str_int :: "int \<Rightarrow> string" where
  "str_int i = (if i < 0 then ''-'' @ str_nat (nat (- i)) else str_nat (nat i))"

datatype error = FileNotFoundError string

text \<open>
  Lines 131 to 136. The first argument is the toolkit's \<open>initWithContentsOfFile_\<close>: it
  gives the decoded image, or nothing.
\<close>

definition load_source_image ::
  "(string \<Rightarrow> source_image option) \<Rightarrow> path \<Rightarrow> error + source_image" where
  "load_source_image initWithContentsOfFile source_path =
     (case initWithContentsOfFile (str_path source_path) of
        None \<Rightarrow> Inl (FileNotFoundError (''Could not load image: '' @ str_path source_path))
      | Some image' \<Rightarrow> Inr image')"

text \<open>What the script does to the world outside it, in order.\<close>

datatype effect =
    Print string
  | Mkdir path
  | ReadImage string
  | WriteToFile string "source_image ns_image bitmap"
  | WriteText path string

text \<open>
  Lines 204 to 228. The optional parameter \<open>source_size\<close> is \<open>None\<close> when the caller
  leaves it out, and then has its default 1024.
\<close>

definition save_png ::
  "source_image ns_image \<Rightarrow> path \<Rightarrow> int \<Rightarrow> int option \<Rightarrow> effect list" where
  "save_png image' path size' source_size_arg =
     (let source_size = (case source_size_arg of None \<Rightarrow> 1024 | Some s \<Rightarrow> s);
          ctx = graphicsContextWithBitmapImageRep;
          ctx = setImageInterpolation 3 ctx;
          ctx = drawInRect_fromRect_operation_fraction image'
                  (NSMakeRect 0 0 (real_of_int size') (real_of_int size'))
                  (NSMakeRect 0 0 (real_of_int source_size) (real_of_int source_size))
                  NSCompositingOperationSourceOver 1.0 ctx;
          png_data = \<lparr> pixelsWide = size', pixelsHigh = size', painted = canvas ctx \<rparr>
      in [ WriteToFile (str_path path) png_data,
           Print (''  Created: '' @ name path @ '' ('' @ str_int size' @ ''x'' @ str_int size' @ '')'') ])"

subsection \<open>JSON text\<close>

datatype json =
    JString string
  | JInt int
  | JArray "json list"
  | JObject "(string \<times> json) list"

text \<open>
  \<open>json.dumps\<close> with an indent: a container opens, puts each item on a line of its own
  at one more level of indentation, separated by commas, and closes on a line of its own;
  a key and its value are separated by a colon and a space; an empty container is written
  without a line break. Strings are quoted, with the quote, the backslash and the line
  break, carriage return and tab escaped (other control characters and characters beyond
  ASCII do not occur in the manifest and are not modelled).
\<close>

fun escape_char :: "char \<Rightarrow> string" where
  "escape_char c =
     (if c = CHR 0x22 then [CHR 0x5C, CHR 0x22]
      else if c = CHR 0x5C then [CHR 0x5C, CHR 0x5C]
      else if c = CHR 0x0A then [CHR 0x5C, CHR ''n'']
      else if c = CHR 0x0D then [CHR 0x5C, CHR ''r'']
      else if c = CHR 0x09 then [CHR 0x5C, CHR ''t'']
      else [c])"

definition encode_string :: "string \<Rightarrow> string" where
  "encode_string s = [CHR 0x22] @ concat (map escape_char s) @ [CHR 0x22]"

definition newline_indent :: "nat \<Rightarrow> nat \<Rightarrow> string" where
  "newline_indent indent level = CHR 0x0A # replicate (indent * level) CHR '' ''"

fun join_items :: "string \<Rightarrow> string list \<Rightarrow> string" where
  "join_items sep [] = []"
| "join_items sep [s] = s"
| "join_items sep (s # t # ts) = s @ sep @ join_items sep (t # ts)"

fun dumps_at :: "nat \<Rightarrow> nat \<Rightarrow> json \<Rightarrow> string" where
  "dumps_at indent level (JString s) = encode_string s"
| "dumps_at indent level (JInt i) = str_int i"
| "dumps_at indent level (JArray vs) =
     (if vs = [] then ''[]''
      else ''['' @ newline_indent indent (Suc level)
           @ join_items ('','' @ newline_indent indent (Suc level))
               (map (dumps_at indent (Suc level)) vs)
           @ newline_indent indent level @ '']'')"
| "dumps_at indent level (JObject kvs) =
     (if kvs = [] then ''{}''
      else ''{'' @ newline_indent indent (Suc level)
           @ join_items ('','' @ newline_indent indent (Suc level))
               (map (\<lambda>kv. encode_string (fst kv) @ '': '' @ dumps_at indent (Suc level) (snd kv)) kvs)
           @ newline_indent indent level @ ''}'')"

definition dumps :: "json \<Rightarrow> nat \<Rightarrow> string" where
  "dumps v indent = dumps_at indent 0 v"

text \<open>
  \<open>json.loads\<close>, for the texts \<open>dumps\<close> writes: objects, arrays, strings and integers,
  with white space between the tokens. The parser is given as many steps as the text has
  characters, which is more than it can use; \<open>None\<close> is a text that is not JSON of this
  kind.
\<close>

fun skip_ws :: "string \<Rightarrow> string" where
  "skip_ws [] = []"
| "skip_ws (c # cs) =
     (if c = CHR '' '' \<or> c = CHR 0x0A \<or> c = CHR 0x0D \<or> c = CHR 0x09 then skip_ws cs else c # cs)"

fun parse_chars :: "string \<Rightarrow> (string \<times> string) option" where
  "parse_chars [] = None"
| "parse_chars (c # cs) =
     (if c = CHR 0x22 then Some ([], cs)
      else if c = CHR 0x5C then
        (case cs of
           [] \<Rightarrow> None
         | e # rest \<Rightarrow>
             (case (if e = CHR 0x22 then Some (CHR 0x22)
                    else if e = CHR 0x5C then Some (CHR 0x5C)
                    else if e = CHR ''/'' then Some (CHR ''/'')
                    else if e = CHR ''n'' then Some (CHR 0x0A)
                    else if e = CHR ''r'' then Some (CHR 0x0D)
                    else if e = CHR ''t'' then Some (CHR 0x09)
                    else None) of
                None \<Rightarrow> None
              | Some d \<Rightarrow> map_option (\<lambda>(s, r). (d # s, r)) (parse_chars rest)))
      else map_option (\<lambda>(s, r). (c # s, r)) (parse_chars cs))"

definition digit_of :: "char \<Rightarrow> nat option" where
  "digit_of c = map_of (zip ''0123456789'' [0, 1, 2, 3, 4, 5, 6, 7, 8, 9]) c"

fun parse_digits :: "nat \<Rightarrow> string \<Rightarrow> nat \<times> string" where
  "parse_digits acc [] = (acc, [])"
| "parse_digits acc (c # cs) =
     (case digit_of c of None \<Rightarrow> (acc, c # cs) | Some d \<Rightarrow> parse_digits (acc * 10 + d) cs)"

definition parse_nat :: "string \<Rightarrow> (nat \<times> string) option" where
  "parse_nat s =
     (case s of
        [] \<Rightarrow> None
      | c # cs \<Rightarrow>
          (case digit_of c of
             None \<Rightarrow> None
           | Some d \<Rightarrow>
               if d = 0 then Some (0, cs) else Some (parse_digits d cs)))"

definition parse_int :: "string \<Rightarrow> (int \<times> string) option" where
  "parse_int s =
     (case s of
        [] \<Rightarrow> None
      | c # cs \<Rightarrow>
          if c = CHR ''-'' then map_option (\<lambda>(n, r). (- int n, r)) (parse_nat cs)
          else map_option (\<lambda>(n, r). (int n, r)) (parse_nat s))"

fun parse_value :: "nat \<Rightarrow> string \<Rightarrow> (json \<times> string) option"
  and parse_elements :: "nat \<Rightarrow> string \<Rightarrow> (json list \<times> string) option"
  and parse_members :: "nat \<Rightarrow> string \<Rightarrow> ((string \<times> json) list \<times> string) option"
where
  "parse_value 0 s = None"
| "parse_value (Suc n) [] = None"
| "parse_value (Suc n) (c # cs) =
     (if c = CHR ''{'' then
        (case skip_ws cs of
           [] \<Rightarrow> None
         | d # ds \<Rightarrow>
             if d = CHR ''}'' then Some (JObject [], ds)
             else map_option (\<lambda>(kvs, r). (JObject kvs, r)) (parse_members n (d # ds)))
      else if c = CHR ''['' then
        (case skip_ws cs of
           [] \<Rightarrow> None
         | d # ds \<Rightarrow>
             if d = CHR '']'' then Some (JArray [], ds)
             else map_option (\<lambda>(vs, r). (JArray vs, r)) (parse_elements n (d # ds)))
      else if c = CHR 0x22 then map_option (\<lambda>(s, r). (JString s, r)) (parse_chars cs)
      else map_option (\<lambda>(i, r). (JInt i, r)) (parse_int (c # cs)))"
| "parse_elements 0 s = None"
| "parse_elements (Suc n) s =
     (case parse_value n s of
        None \<Rightarrow> None
      | Some (v, r) \<Rightarrow>
          (case skip_ws r of
             [] \<Rightarrow> None
           | d # ds \<Rightarrow>
               if d = CHR '']'' then Some ([v], ds)
               else if d = CHR '','' then
                 map_option (\<lambda>(vs, r'). (v # vs, r')) (parse_elements n (skip_ws ds))
               else None))"
| "parse_members 0 s = None"
| "parse_members (Suc n) s =
     (case s of
        [] \<Rightarrow> None
      | q # cs \<Rightarrow>
          if q \<noteq> CHR 0x22 then None
          else
            (case parse_chars cs of
               None \<Rightarrow> None
             | Some (k, r) \<Rightarrow>
                 (case skip_ws r of
                    [] \<Rightarrow> None
                  | colon # r1 \<Rightarrow>
                      if colon \<noteq> CHR '':'' then None
                      else
                        (case parse_value n (skip_ws r1) of
                           None \<Rightarrow> None
                         | Some (v, r2) \<Rightarrow>
                             (case skip_ws r2 of
                                [] \<Rightarrow> None
                              | d # ds \<Rightarrow>
                                  if d = CHR ''}'' then Some ([(k, v)], ds)
                                  else if d = CHR '','' then
                                    map_option (\<lambda>(kvs, r'). ((k, v) # kvs, r'))
                                      (parse_members n (skip_ws ds))
                                  else None)))))"

definition loads :: "string \<Rightarrow> json option" where
  "loads s =
     (case parse_value (length s) (skip_ws s) of
        None \<Rightarrow> None
      | Some (v, r) \<Rightarrow> if skip_ws r = [] then Some v else None)"

subsection \<open>The script's entry point\<close>

definition sizes :: "int list" where
  "sizes = [16, 32, 64, 128, 256, 512, 1024]"

text \<open>Lines 253 to 255: the export loop. It calls \<open>save_png\<close> without a \<open>source_size\<close>.\<close>

fun export_loop :: "source_image ns_image \<Rightarrow> path \<Rightarrow> int list \<Rightarrow> effect list" where
  "export_loop icon output_dir [] = []"
| "export_loop icon output_dir (size' # rest) =
     (let output_path = joinpath output_dir (''appicon_'' @ str_int size' @ ''.png'')
      in save_png icon output_path size' None @ export_loop icon output_dir rest)"

text \<open>Lines 258 to 264: the manifest, with the keys in the order the script writes them.\<close>

definition manifest_entry :: "int \<Rightarrow> json" where
  "manifest_entry size' =
     JObject [ (''filename'', JString (''appicon_'' @ str_int size' @ ''.png'')),
               (''idiom'', JString ''mac''),
               (''size'', JString (str_int size' @ ''x'' @ str_int size')),
               (''scale'', JString ''1x'') ]"

definition contents :: "int list \<Rightarrow> json" where
  "contents szs =
     JObject [ (''images'', JArray (map manifest_entry szs)),
               (''info'', JObject [(''author'', JString ''xcode''), (''version'', JInt 1)]) ]"

text \<open>
  The world as \<open>main\<close> sees it: which paths exist, and what the toolkit decodes from a
  file name.
\<close>

record world =
  path_exists :: "path \<Rightarrow> bool"
  initWithContentsOfFile :: "string \<Rightarrow> source_image option"

text \<open>
  Lines 231 to 270. \<open>project_root\<close> is the parent of the parent of the script's file. The
  result is the value returned (\<open>None\<close> when \<open>main\<close> runs to its end) or the error
  raised, with the effects up to that point.
\<close>

definition main :: "world \<Rightarrow> path \<Rightarrow> (error + int option) \<times> effect list" where
  "main w project_root =
     (let source_path = joinpath (joinpath project_root ''images'') ''appiconbase.png'' in
      if \<not> path_exists w source_path then
        (Inr (Some 1), [Print (''Error: Source image not found: '' @ str_path source_path)])
      else
        let output_dir =
              joinpath (joinpath (joinpath (joinpath (joinpath project_root ''Sources'')
                ''Sessylph'') ''Resources'') ''Assets.xcassets'') ''AppIcon.appiconset'';
            fx = [ Mkdir output_dir,
                   Print (''Loading source image: '' @ str_path source_path),
                   ReadImage (str_path source_path) ]
        in case load_source_image (initWithContentsOfFile w) source_path of
             Inl e \<Rightarrow> (Inl e, fx)
           | Inr source_image \<Rightarrow>
               let fx = fx @ [Print ''Creating icon with squircle mask...''];
                   icon = create_icon source_image 1024;
                   fx = fx @ [Print (CHR 0x0A # ''Generating PNG icons...'')];
                   fx = fx @ export_loop icon output_dir sizes;
                   contents_path = joinpath output_dir ''Contents.json'';
                   fx = fx @ [WriteText contents_path (dumps (contents sizes) 2 @ [CHR 0x0A])];
                   fx = fx @ [Print ''  Created: Contents.json''];
                   fx = fx @ [Print (CHR 0x0A # ''All icons generated successfully!'')]
               in (Inr None, fx))"

text \<open>The files a run writes, read off its effects.\<close>

fun png_writes :: "effect list \<Rightarrow> (string \<times> source_image ns_image bitmap) list" where
  "png_writes [] = []"
| "png_writes (WriteToFile f b # es) = (f, b) # png_writes es"
| "png_writes (e # es) = png_writes es"

fun text_writes :: "effect list \<Rightarrow> (path \<times> string) list" where
  "text_writes [] = []"
| "text_writes (WriteText p t # es) = (p, t) # text_writes es"
| "text_writes (e # es) = text_writes es"

fun is_fs_change :: "effect \<Rightarrow> bool" where
  "is_fs_change (Mkdir p) = True"
| "is_fs_change (WriteToFile f b) = True"
| "is_fs_change (WriteText p t) = True"
| "is_fs_change e = False"

text \<open>Names for the two paths \<open>main\<close> builds from the project root, and for the text it writes.\<close>

definition source_path_of :: "path \<Rightarrow> path" where
  "source_path_of project_root = joinpath (joinpath project_root ''images'') ''appiconbase.png''"

definition output_dir_of :: "path \<Rightarrow> path" where
  "output_dir_of project_root =
     joinpath (joinpath (joinpath (joinpath (joinpath project_root ''Sources'')
       ''Sessylph'') ''Resources'') ''Assets.xcassets'') ''AppIcon.appiconset''"

definition manifest_text :: string where
  "manifest_text = dumps (contents sizes) 2 @ [CHR 0x0A]"

text \<open>The bitmap \<open>save_png\<close> encodes for a size, and the source rectangles a bitmap was drawn from.\<close>

definition exported_bitmap :: "'i \<Rightarrow> int \<Rightarrow> 'i bitmap" where
  "exported_bitmap icon size' =
     \<lparr> pixelsWide = size', pixelsHigh = size',
       painted = [DrawImage icon (NSMakeRect 0 0 (real_of_int size') (real_of_int size'))
                    (NSMakeRect 0 0 1024 1024) NSCompositingOperationSourceOver 1 []] \<rparr>"

fun source_rects :: "'i paint list \<Rightarrow> rect list" where
  "source_rects [] = []"
| "source_rects (DrawImage i dst src operation fraction cl # ps) = src # source_rects ps"
| "source_rects (p # ps) = source_rects ps"

text \<open>Two worlds for the examples: one without the source file, one whose file does not decode.\<close>

definition world_without_source :: world where
  "world_without_source = \<lparr> path_exists = (\<lambda>p. False), initWithContentsOfFile = (\<lambda>f. None) \<rparr>"

definition world_undecodable :: world where
  "world_undecodable = \<lparr> path_exists = (\<lambda>p. True), initWithContentsOfFile = (\<lambda>f. None) \<rparr>"

definition world_with_source :: world where
  "world_with_source =
     \<lparr> path_exists = (\<lambda>p. True),
       initWithContentsOfFile = (\<lambda>f. Some \<lparr> size_width = 1024, size_height = 1024 \<rparr>) \<rparr>"

section \<open>Properties of the corner radius\<close>

lemma limited_radius_pos:
  assumes "0 < width" "0 < height"
  shows "limited_radius width height = 0.22 * min width height"
proof -
  have "0 < min width height" using assms by simp
  then have "min width height * 0.22 \<le> min width height / 2 / 1.52866483"
    by (simp add: field_simps)
  then show ?thesis
    by (simp add: limited_radius_def corner_radius_def max_radius_def LIMIT_FACTOR_def)
qed

text \<open>
  Claim C1. For every width and height above zero, the radius \<open>create_squircle_path\<close>
  builds its path with is the minimum of 0.22 times \<open>min width height\<close> and
  \<open>(min width height / 2) / 1.52866483\<close>; for a square of side \<open>S\<close> this is
  \<open>min (0.22 * S) (S / (2 * 1.52866483))\<close>.
\<close>

theorem create_squircle_path_radius:
  assumes "0 < width" "0 < height"
  shows "limited_radius width height
           = min (0.22 * min width height) ((min width height / 2) / 1.52866483)
       \<and> create_squircle_path x y width height
           = squircle_elements
               (min (0.22 * min width height) ((min width height / 2) / 1.52866483))
               x (x + width) (y + height) y
       \<and> (width = height \<longrightarrow>
            limited_radius width height = min (0.22 * width) (width / (2 * 1.52866483)))"
proof -
  have r: "limited_radius width height
             = min (0.22 * min width height) ((min width height / 2) / 1.52866483)"
    by (simp add: limited_radius_def corner_radius_def max_radius_def LIMIT_FACTOR_def
          mult.commute)
  have p: "create_squircle_path x y width height
             = squircle_elements (limited_radius width height) x (x + width) (y + height) y"
    by (simp add: create_squircle_path_def)
  have s: "width = height \<longrightarrow>
             limited_radius width height = min (0.22 * width) (width / (2 * 1.52866483))"
    by (simp add: limited_radius_def corner_radius_def max_radius_def LIMIT_FACTOR_def
          mult.commute)
  from r p s show ?thesis by simp
qed

theorem create_squircle_path_radius_witness:
  "limited_radius 100 100 = 22
   \<and> create_squircle_path 0 0 100 100 = squircle_elements 22 0 100 100 0"
proof -
  have h: "(0::real) < 100" by simp
  from create_squircle_path_radius [OF h h, of 0 0] show ?thesis by simp
qed

section \<open>Points of the contour\<close>

lemma bernstein_weights:
  "(1 - t) ^ 3 + 3 * (1 - t) ^ 2 * t + 3 * (1 - t) * t ^ 2 + t ^ 3 = (1::real)"
  by (simp add: power3_eq_cube power2_eq_square algebra_simps)

lemma bernstein_lower:
  assumes t: "0 \<le> t" "t \<le> 1" and lo: "lo \<le> a" "lo \<le> b" "lo \<le> c" "lo \<le> d"
  shows "lo \<le> bernstein t a b c d"
proof -
  have w: "0 \<le> (1 - t) ^ 3" "0 \<le> 3 * (1 - t) ^ 2 * t" "0 \<le> 3 * (1 - t) * t ^ 2" "0 \<le> t ^ 3"
    using t by simp_all
  have "lo = ((1 - t) ^ 3 + 3 * (1 - t) ^ 2 * t + 3 * (1 - t) * t ^ 2 + t ^ 3) * lo"
    by (simp only: bernstein_weights mult_1)
  also have "\<dots> = (1 - t) ^ 3 * lo + 3 * (1 - t) ^ 2 * t * lo + 3 * (1 - t) * t ^ 2 * lo + t ^ 3 * lo"
    by (simp only: distrib_right)
  also have "\<dots> \<le> bernstein t a b c d"
    unfolding bernstein_def
    by (intro add_mono mult_left_mono w lo)
  finally show ?thesis .
qed

lemma bernstein_upper:
  assumes t: "0 \<le> t" "t \<le> 1" and hi: "a \<le> hi" "b \<le> hi" "c \<le> hi" "d \<le> hi"
  shows "bernstein t a b c d \<le> hi"
proof -
  have w: "0 \<le> (1 - t) ^ 3" "0 \<le> 3 * (1 - t) ^ 2 * t" "0 \<le> 3 * (1 - t) * t ^ 2" "0 \<le> t ^ 3"
    using t by simp_all
  have "bernstein t a b c d
          \<le> (1 - t) ^ 3 * hi + 3 * (1 - t) ^ 2 * t * hi + 3 * (1 - t) * t ^ 2 * hi + t ^ 3 * hi"
    unfolding bernstein_def
    by (intro add_mono mult_left_mono w hi)
  also have "\<dots> = ((1 - t) ^ 3 + 3 * (1 - t) ^ 2 * t + 3 * (1 - t) * t ^ 2 + t ^ 3) * hi"
    by (simp only: distrib_right)
  also have "\<dots> = hi"
    by (simp only: bernstein_weights mult_1)
  finally show ?thesis .
qed

lemma lerp_lower:
  assumes "0 \<le> t" "t \<le> 1" "lo \<le> a" "lo \<le> b"
  shows "lo \<le> (1 - t) * a + t * (b::real)"
proof -
  have "lo = (1 - t) * lo + t * lo" by (simp add: algebra_simps)
  also have "\<dots> \<le> (1 - t) * a + t * b"
    using assms by (intro add_mono mult_left_mono) simp_all
  finally show ?thesis .
qed

lemma lerp_upper:
  assumes "0 \<le> t" "t \<le> 1" "a \<le> hi" "b \<le> hi"
  shows "(1 - t) * a + t * (b::real) \<le> hi"
proof -
  have "(1 - t) * a + t * b \<le> (1 - t) * hi + t * hi"
    using assms by (intro add_mono mult_left_mono) simp_all
  also have "\<dots> = hi" by (simp add: algebra_simps)
  finally show ?thesis .
qed

lemma seg_point_in_rect:
  assumes "list_all (in_rect x y w h) (seg_ctrl sg)" "0 \<le> t" "t \<le> 1"
  shows "in_rect x y w h (seg_point sg t)"
proof (cases sg)
  case (Line a b)
  with assms show ?thesis
    by (simp add: in_rect_def lerp_lower lerp_upper)
next
  case (Cubic p0 c1 c2 p3)
  with assms show ?thesis
    by (simp add: in_rect_def bernstein_lower bernstein_upper)
qed

lemma segments_squircle_elements:
  "segments (squircle_elements r left right top' bottom) =
   [ Line (NSPoint (left + r * TOP_RIGHT_P1) top') (NSPoint (right - r * TOP_RIGHT_P1) top'),
     Cubic (NSPoint (right - r * TOP_RIGHT_P1) top')
           (NSPoint (right - r * TOP_RIGHT_P2) top')
           (NSPoint (right - r * TOP_RIGHT_P3) top')
           (NSPoint (right - r * TOP_RIGHT_P4) (top' - r * TOP_RIGHT_CP1)),
     Cubic (NSPoint (right - r * TOP_RIGHT_P4) (top' - r * TOP_RIGHT_CP1))
           (NSPoint (right - r * TOP_RIGHT_P6) (top' - r * TOP_RIGHT_CP3))
           (NSPoint (right - r * TOP_RIGHT_P7) (top' - r * TOP_RIGHT_CP4))
           (NSPoint (right - r * TOP_RIGHT_CP2) (top' - r * TOP_RIGHT_P5)),
     Cubic (NSPoint (right - r * TOP_RIGHT_CP2) (top' - r * TOP_RIGHT_P5))
           (NSPoint right (top' - r * TOP_RIGHT_P3))
           (NSPoint right (top' - r * TOP_RIGHT_P2))
           (NSPoint right (top' - r * TOP_RIGHT_P1)),
     Line (NSPoint right (top' - r * TOP_RIGHT_P1)) (NSPoint right (bottom + r * TOP_RIGHT_P1)),
     Cubic (NSPoint right (bottom + r * TOP_RIGHT_P1))
           (NSPoint right (bottom + r * TOP_RIGHT_P2))
           (NSPoint right (bottom + r * TOP_RIGHT_P3))
           (NSPoint (right - r * TOP_RIGHT_CP1) (bottom + r * TOP_RIGHT_P4)),
     Cubic (NSPoint (right - r * TOP_RIGHT_CP1) (bottom + r * TOP_RIGHT_P4))
           (NSPoint (right - r * TOP_RIGHT_CP3) (bottom + r * TOP_RIGHT_P6))
           (NSPoint (right - r * TOP_RIGHT_CP4) (bottom + r * TOP_RIGHT_P7))
           (NSPoint (right - r * TOP_RIGHT_P5) (bottom + r * TOP_RIGHT_CP2)),
     Cubic (NSPoint (right - r * TOP_RIGHT_P5) (bottom + r * TOP_RIGHT_CP2))
           (NSPoint (right - r * TOP_RIGHT_P3) bottom)
           (NSPoint (right - r * TOP_RIGHT_P2) bottom)
           (NSPoint (right - r * TOP_RIGHT_P1) bottom),
     Line (NSPoint (right - r * TOP_RIGHT_P1) bottom) (NSPoint (left + r * TOP_RIGHT_P1) bottom),
     Cubic (NSPoint (left + r * TOP_RIGHT_P1) bottom)
           (NSPoint (left + r * TOP_RIGHT_P2) bottom)
           (NSPoint (left + r * TOP_RIGHT_P3) bottom)
           (NSPoint (left + r * TOP_RIGHT_P4) (bottom + r * TOP_RIGHT_CP1)),
     Cubic (NSPoint (left + r * TOP_RIGHT_P4) (bottom + r * TOP_RIGHT_CP1))
           (NSPoint (left + r * TOP_RIGHT_P6) (bottom + r * TOP_RIGHT_CP3))
           (NSPoint (left + r * TOP_RIGHT_P7) (bottom + r * TOP_RIGHT_CP4))
           (NSPoint (left + r * TOP_RIGHT_CP2) (bottom + r * TOP_RIGHT_P5)),
     Cubic (NSPoint (left + r * TOP_RIGHT_CP2) (bottom + r * TOP_RIGHT_P5))
           (NSPoint left (bottom + r * TOP_RIGHT_P3))
           (NSPoint left (bottom + r * TOP_RIGHT_P2))
           (NSPoint left (bottom + r * TOP_RIGHT_P1)),
     Line (NSPoint left (bottom + r * TOP_RIGHT_P1)) (NSPoint left (top' - r * TOP_RIGHT_P1)),
     Cubic (NSPoint left (top' - r * TOP_RIGHT_P1))
           (NSPoint left (top' - r * TOP_RIGHT_P2))
           (NSPoint left (top' - r * TOP_RIGHT_P3))
           (NSPoint (left + r * TOP_RIGHT_CP1) (top' - r * TOP_RIGHT_P4)),
     Cubic (NSPoint (left + r * TOP_RIGHT_CP1) (top' - r * TOP_RIGHT_P4))
           (NSPoint (left + r * TOP_RIGHT_CP3) (top' - r * TOP_RIGHT_P6))
           (NSPoint (left + r * TOP_RIGHT_CP4) (top' - r * TOP_RIGHT_P7))
           (NSPoint (left + r * TOP_RIGHT_P5) (top' - r * TOP_RIGHT_CP2)),
     Cubic (NSPoint (left + r * TOP_RIGHT_P5) (top' - r * TOP_RIGHT_CP2))
           (NSPoint (left + r * TOP_RIGHT_P3) top')
           (NSPoint (left + r * TOP_RIGHT_P2) top')
           (NSPoint (left + r * TOP_RIGHT_P1) top'),
     Line (NSPoint (left + r * TOP_RIGHT_P1) top') (NSPoint (left + r * TOP_RIGHT_P1) top') ]"
  by (simp add: squircle_elements_def)

lemma coefficient_range:
  "0 \<le> TOP_RIGHT_P1" "0 \<le> TOP_RIGHT_P2" "0 \<le> TOP_RIGHT_P3" "0 \<le> TOP_RIGHT_P4"
  "0 \<le> TOP_RIGHT_P5" "0 \<le> TOP_RIGHT_P6" "0 \<le> TOP_RIGHT_P7"
  "0 \<le> TOP_RIGHT_CP1" "0 \<le> TOP_RIGHT_CP2" "0 \<le> TOP_RIGHT_CP3" "0 \<le> TOP_RIGHT_CP4"
  "TOP_RIGHT_P2 \<le> TOP_RIGHT_P1" "TOP_RIGHT_P3 \<le> TOP_RIGHT_P1" "TOP_RIGHT_P4 \<le> TOP_RIGHT_P1"
  "TOP_RIGHT_P5 \<le> TOP_RIGHT_P1" "TOP_RIGHT_P6 \<le> TOP_RIGHT_P1" "TOP_RIGHT_P7 \<le> TOP_RIGHT_P1"
  "TOP_RIGHT_CP1 \<le> TOP_RIGHT_P1" "TOP_RIGHT_CP2 \<le> TOP_RIGHT_P1"
  "TOP_RIGHT_CP3 \<le> TOP_RIGHT_P1" "TOP_RIGHT_CP4 \<le> TOP_RIGHT_P1"
  by (simp_all add: TOP_RIGHT_P1_def TOP_RIGHT_P2_def TOP_RIGHT_P3_def TOP_RIGHT_P4_def
        TOP_RIGHT_P5_def TOP_RIGHT_P6_def TOP_RIGHT_P7_def TOP_RIGHT_CP1_def TOP_RIGHT_CP2_def
        TOP_RIGHT_CP3_def TOP_RIGHT_CP4_def)

lemma offset_range:
  assumes r: "0 \<le> r" and m: "r * TOP_RIGHT_P1 \<le> m" and k: "0 \<le> k" "k \<le> TOP_RIGHT_P1"
  shows "0 \<le> r * k \<and> r * k \<le> m"
proof -
  have "r * k \<le> r * TOP_RIGHT_P1" using r k by (intro mult_left_mono)
  with m r k show ?thesis by simp
qed

lemma squircle_ctrl_in_rect:
  assumes r: "0 \<le> r" and w: "r * TOP_RIGHT_P1 \<le> w" and h: "r * TOP_RIGHT_P1 \<le> h"
    and sg: "sg \<in> set (segments (squircle_elements r x (x + w) (y + h) y))"
  shows "list_all (in_rect x y w h) (seg_ctrl sg)"
proof -
  note o = offset_range [OF r w] offset_range [OF r h]
  note f = o [OF coefficient_range(1) order_refl]
    o [OF coefficient_range(2) coefficient_range(12)]
    o [OF coefficient_range(3) coefficient_range(13)]
    o [OF coefficient_range(4) coefficient_range(14)]
    o [OF coefficient_range(5) coefficient_range(15)]
    o [OF coefficient_range(6) coefficient_range(16)]
    o [OF coefficient_range(7) coefficient_range(17)]
    o [OF coefficient_range(8) coefficient_range(18)]
    o [OF coefficient_range(9) coefficient_range(19)]
    o [OF coefficient_range(10) coefficient_range(20)]
    o [OF coefficient_range(11) coefficient_range(21)]
  from sg show ?thesis
    unfolding segments_squircle_elements
    using f by (auto simp: in_rect_def)
qed

lemma squircle_elements_closed: "closed_contour (squircle_elements r left right top' bottom)"
  by (simp add: squircle_elements_def)

lemma limited_radius_fits:
  assumes "0 < width" "0 < height"
  shows "0 \<le> limited_radius width height"
    and "limited_radius width height * TOP_RIGHT_P1 \<le> width"
    and "limited_radius width height * TOP_RIGHT_P1 \<le> height"
proof -
  have m: "0 < min width height" "min width height \<le> width" "min width height \<le> height"
    using assms by simp_all
  have r: "limited_radius width height = 0.22 * min width height"
    using assms by (rule limited_radius_pos)
  show "0 \<le> limited_radius width height" using m by (simp add: r)
  have "22 / 100 * TOP_RIGHT_P1 \<le> 1" by (simp add: TOP_RIGHT_P1_def)
  then have "22 / 100 * TOP_RIGHT_P1 * min width height \<le> 1 * min width height"
    using m(1) by (intro mult_right_mono) simp_all
  then have "limited_radius width height * TOP_RIGHT_P1 \<le> min width height"
    by (simp add: r mult.assoc mult.left_commute mult.commute)
  with m show "limited_radius width height * TOP_RIGHT_P1 \<le> width"
    and "limited_radius width height * TOP_RIGHT_P1 \<le> height" by simp_all
qed

lemma on_contour_in_rect:
  assumes "0 < width" "0 < height" "on_contour (create_squircle_path x y width height) p"
  shows "in_rect x y width height p"
proof -
  from assms(3) obtain sg t where sg: "sg \<in> set (segments (create_squircle_path x y width height))"
    and t: "0 \<le> t" "t \<le> 1" and p: "seg_point sg t = p"
    by (auto simp: on_contour_def)
  from sg have "list_all (in_rect x y width height) (seg_ctrl sg)"
    unfolding create_squircle_path_def Let_def
    by (rule squircle_ctrl_in_rect [OF limited_radius_fits [OF assms(1,2)]])
  from seg_point_in_rect [OF this t] p show ?thesis by simp
qed

lemma on_contour_line_start:
  "Line a b \<in> set (segments path) \<Longrightarrow> on_contour path a"
  unfolding on_contour_def
  by (rule bexI [where x = "Line a b"], rule exI [where x = 0]) simp_all

lemma squircle_lines:
  "Line (NSPoint (left + r * TOP_RIGHT_P1) top') (NSPoint (right - r * TOP_RIGHT_P1) top')
     \<in> set (segments (squircle_elements r left right top' bottom))"
  "Line (NSPoint right (top' - r * TOP_RIGHT_P1)) (NSPoint right (bottom + r * TOP_RIGHT_P1))
     \<in> set (segments (squircle_elements r left right top' bottom))"
  "Line (NSPoint (right - r * TOP_RIGHT_P1) bottom) (NSPoint (left + r * TOP_RIGHT_P1) bottom)
     \<in> set (segments (squircle_elements r left right top' bottom))"
  "Line (NSPoint left (bottom + r * TOP_RIGHT_P1)) (NSPoint left (top' - r * TOP_RIGHT_P1))
     \<in> set (segments (squircle_elements r left right top' bottom))"
  by (simp_all add: segments_squircle_elements)

lemma squircle_edge_points:
  "on_contour (create_squircle_path x y width height)
     (NSPoint (x + limited_radius width height * TOP_RIGHT_P1) (y + height))"
  "on_contour (create_squircle_path x y width height)
     (NSPoint (x + width) (y + height - limited_radius width height * TOP_RIGHT_P1))"
  "on_contour (create_squircle_path x y width height)
     (NSPoint (x + width - limited_radius width height * TOP_RIGHT_P1) y)"
  "on_contour (create_squircle_path x y width height)
     (NSPoint x (y + limited_radius width height * TOP_RIGHT_P1))"
  unfolding create_squircle_path_def Let_def
  by (rule on_contour_line_start [OF squircle_lines(1)]
           on_contour_line_start [OF squircle_lines(2)]
           on_contour_line_start [OF squircle_lines(3)]
           on_contour_line_start [OF squircle_lines(4)])+

text \<open>
  Claim C3. For a square of side \<open>S\<close> above zero at any origin, the path is a closed
  contour (its drawing calls lead back to the starting point, and a \<open>ClosePath\<close> ends
  it), every point it visits lies in the rectangle from \<open>(x, y)\<close> to
  \<open>(x + S, y + S)\<close>, and each of the four edges of that rectangle is reached.
\<close>

theorem squircle_bounding_box:
  assumes "0 < S"
  shows "closed_contour (create_squircle_path x y S S)
       \<and> (\<forall>p. on_contour (create_squircle_path x y S S) p \<longrightarrow> in_rect x y S S p)
       \<and> (\<exists>p. on_contour (create_squircle_path x y S S) p \<and> px p = x)
       \<and> (\<exists>p. on_contour (create_squircle_path x y S S) p \<and> px p = x + S)
       \<and> (\<exists>p. on_contour (create_squircle_path x y S S) p \<and> py p = y)
       \<and> (\<exists>p. on_contour (create_squircle_path x y S S) p \<and> py p = y + S)"
proof (intro conjI allI impI)
  show "closed_contour (create_squircle_path x y S S)"
    by (simp add: create_squircle_path_def squircle_elements_closed)
  show "in_rect x y S S p" if "on_contour (create_squircle_path x y S S) p" for p
    using assms assms that by (rule on_contour_in_rect)
  show "\<exists>p. on_contour (create_squircle_path x y S S) p \<and> px p = x"
    by (rule exI [where x = "NSPoint x (y + limited_radius S S * TOP_RIGHT_P1)"])
       (simp add: squircle_edge_points(4))
  show "\<exists>p. on_contour (create_squircle_path x y S S) p \<and> px p = x + S"
    by (rule exI [where x = "NSPoint (x + S) (y + S - limited_radius S S * TOP_RIGHT_P1)"])
       (simp add: squircle_edge_points(2))
  show "\<exists>p. on_contour (create_squircle_path x y S S) p \<and> py p = y"
    by (rule exI [where x = "NSPoint (x + S - limited_radius S S * TOP_RIGHT_P1) y"])
       (simp add: squircle_edge_points(3))
  show "\<exists>p. on_contour (create_squircle_path x y S S) p \<and> py p = y + S"
    by (rule exI [where x = "NSPoint (x + limited_radius S S * TOP_RIGHT_P1) (y + S)"])
       (simp add: squircle_edge_points(1))
qed

lemma right_edge_midpoint:
  "on_contour (create_squircle_path 0 0 100 100) (NSPoint 100 50)"
  unfolding on_contour_def
proof (intro bexI exI conjI)
  show "seg_point (Line (NSPoint 100 (100 - 22 * TOP_RIGHT_P1)) (NSPoint 100 (0 + 22 * TOP_RIGHT_P1))) (1/2)
          = NSPoint 100 50"
    by (simp add: diff_divide_distrib)
  have "limited_radius 100 100 = 22" using limited_radius_pos [of 100 100] by simp
  then show "Line (NSPoint 100 (100 - 22 * TOP_RIGHT_P1)) (NSPoint 100 (0 + 22 * TOP_RIGHT_P1))
          \<in> set (segments (create_squircle_path 0 0 100 100))"
    by (simp add: create_squircle_path_def segments_squircle_elements)
qed simp_all

theorem squircle_bounding_box_witness:
  "closed_contour (create_squircle_path 0 0 100 100)
   \<and> on_contour (create_squircle_path 0 0 100 100) (NSPoint 100 50)
   \<and> in_rect 0 0 100 100 (NSPoint 100 50)"
proof -
  have h: "(0::real) < 100" by simp
  from squircle_bounding_box [OF h, of 0 0] right_edge_midpoint show ?thesis by blast
qed

text \<open>
  Claim C2 says that some side \<open>S\<close> above zero takes the clamped branch. None does:
  0.22 is below \<open>1 / (2 * 1.52866483)\<close>, so for each side above zero the radius is
  \<open>0.22 * S\<close>, which is not \<open>S / (2 * 1.52866483)\<close>.
\<close>

theorem clamp_never_taken_counterexample:
  "\<not> (\<exists>S>0. limited_radius S S = S / (2 * 1.52866483))"
proof
  assume "\<exists>S>0. limited_radius S S = S / (2 * 1.52866483)"
  then obtain S :: real where S: "0 < S" and e: "limited_radius S S = S / (2 * 1.52866483)"
    by blast
  from S have "limited_radius S S = 0.22 * S" using limited_radius_pos [of S S] by simp
  with e S show False by simp
qed

text \<open>
  Claim C2, amended. For every side \<open>S\<close> above zero the unclamped branch is taken: the
  radius is \<open>0.22 * S\<close>, strictly below \<open>S / (2 * 1.52866483)\<close>. The clamped value is
  the radius only for a side below zero, so the crossover of the two branches is at
  \<open>S = 0\<close>.
\<close>

theorem radius_branches:
  "(0 < S \<longrightarrow> limited_radius S S = 0.22 * S \<and> 0.22 * S < S / (2 * 1.52866483))
   \<and> (S < 0 \<longrightarrow> limited_radius S S = S / (2 * 1.52866483) \<and> S / (2 * 1.52866483) < 0.22 * S)"
  by (simp add: limited_radius_def corner_radius_def max_radius_def LIMIT_FACTOR_def
        min_def field_simps)

theorem radius_branches_witness:
  "limited_radius 100 100 = 22 \<and> limited_radius (-152866483) (-152866483) = -50000000"
  using radius_branches [of 100] radius_branches [of "-152866483"] by simp

section \<open>Convex corners and the quarter turn\<close>

lemmas coefficient_defs = TOP_RIGHT_P1_def TOP_RIGHT_P2_def TOP_RIGHT_P3_def TOP_RIGHT_P4_def
        TOP_RIGHT_P5_def TOP_RIGHT_P6_def TOP_RIGHT_P7_def TOP_RIGHT_CP1_def TOP_RIGHT_CP2_def
        TOP_RIGHT_CP3_def TOP_RIGHT_CP4_def

lemma squircle_turns_right:
  "list_all (\<lambda>k. k \<le> 0)
     (turns (control_polygon (squircle_elements r left right top' bottom)
             @ take 2 (control_polygon (squircle_elements r left right top' bottom))))"
  using zero_le_power2 [of r]
  apply (simp add: squircle_elements_def cross_def)
  apply (simp add: coefficient_defs algebra_simps flip: power2_eq_square)
  apply (simp add: power2_eq_square flip: mult.assoc)
  done

lemma squircle_convex_cornered:
  "convex_cornered (squircle_elements r left right top' bottom)"
  unfolding convex_cornered_def Let_def
  by (rule disjI1) (rule squircle_turns_right)

lemma bernstein_affine:
  "bernstein t (k + m * a) (k + m * b) (k + m * c) (k + m * d) = k + m * bernstein t a b c d"
proof -
  have "bernstein t (k + m * a) (k + m * b) (k + m * c) (k + m * d)
          = ((1 - t) ^ 3 + 3 * (1 - t) ^ 2 * t + 3 * (1 - t) * t ^ 2 + t ^ 3) * k
            + m * bernstein t a b c d"
    unfolding bernstein_def by (simp only: distrib_left distrib_right mult_ac)
  then show ?thesis by (simp only: bernstein_weights mult_1)
qed

lemma seg_point_rot: "seg_point (rot_seg c sg) t = rot90 c (seg_point sg t)"
proof (cases sg)
  case (Line a b)
  then show ?thesis by (simp add: rot90_def algebra_simps)
next
  case (Cubic p0 c1 c2 p3)
  have x: "bernstein t (px c + (py p0 - py c)) (px c + (py c1 - py c))
             (px c + (py c2 - py c)) (px c + (py p3 - py c))
           = px c + (bernstein t (py p0) (py c1) (py c2) (py p3) - py c)"
    using bernstein_affine [of t "px c - py c" 1 "py p0" "py c1" "py c2" "py p3"]
    by (simp add: algebra_simps)
  have y: "bernstein t (py c - (px p0 - px c)) (py c - (px c1 - px c))
             (py c - (px c2 - px c)) (py c - (px p3 - px c))
           = py c - (bernstein t (px p0) (px c1) (px c2) (px p3) - px c)"
    using bernstein_affine [of t "py c + px c" "-1" "px p0" "px c1" "px c2" "px p3"]
    by (simp add: algebra_simps)
  from Cubic x y show ?thesis by (simp add: rot90_def)
qed

lemma on_contourI:
  "sg \<in> set (segments path) \<Longrightarrow> 0 \<le> t \<Longrightarrow> t \<le> 1 \<Longrightarrow> on_contour path (seg_point sg t)"
  unfolding on_contour_def by blast

lemma rot90_center:
  "rot90 (rect_center x y S S) (NSPoint a b) = NSPoint (x + (b - y)) (y + S - (a - x))"
  by (simp add: rot90_def rect_center_def field_simps)


lemma squircle_rot_list:
  "map (rot_seg (rect_center x y S S)) (butlast (segments (squircle_elements r x (x + S) (y + S) y)))
     = drop 4 (butlast (segments (squircle_elements r x (x + S) (y + S) y)))
       @ take 4 (butlast (segments (squircle_elements r x (x + S) (y + S) y)))"
  unfolding segments_squircle_elements
  by (simp add: rot90_center)

lemma squircle_rot_segments:
  assumes "sg \<in> set (butlast (segments (squircle_elements r x (x + S) (y + S) y)))"
  shows "rot_seg (rect_center x y S S) sg \<in> set (segments (squircle_elements r x (x + S) (y + S) y))"
proof -
  let ?L = "segments (squircle_elements r x (x + S) (y + S) y)"
  have "rot_seg (rect_center x y S S) sg \<in> set (map (rot_seg (rect_center x y S S)) (butlast ?L))"
    using assms by simp
  then have "rot_seg (rect_center x y S S) sg \<in> set (drop 4 (butlast ?L) @ take 4 (butlast ?L))"
    by (simp only: squircle_rot_list)
  then have "rot_seg (rect_center x y S S) sg \<in> set (butlast ?L)"
    by (auto dest: in_set_dropD in_set_takeD)
  then show ?thesis by (rule in_set_butlastD)
qed

lemma seg_point_degenerate: "seg_point (Line a a) t = a"
  by (simp add: algebra_simps)

lemma squircle_closing_segment:
  assumes "sg \<in> set (segments (squircle_elements r left right top' bottom))"
    and "sg \<notin> set (butlast (segments (squircle_elements r left right top' bottom)))"
  shows "sg = Line (NSPoint (left + r * TOP_RIGHT_P1) top') (NSPoint (left + r * TOP_RIGHT_P1) top')"
proof -
  let ?L = "segments (squircle_elements r left right top' bottom)"
  have ne: "?L \<noteq> []" by (simp add: segments_squircle_elements)
  from append_butlast_last_id [OF ne] have "set ?L = set (butlast ?L) \<union> {last ?L}"
    by (metis list.simps(15) set_append Un_insert_right sup_bot.right_neutral list.set(1))
  with assms have "sg = last ?L" by blast
  then show ?thesis by (simp add: segments_squircle_elements)
qed

lemma squircle_rot_step:
  assumes "on_contour (squircle_elements r x (x + S) (y + S) y) p"
  shows "on_contour (squircle_elements r x (x + S) (y + S) y) (rot90 (rect_center x y S S) p)"
proof -
  let ?P = "squircle_elements r x (x + S) (y + S) y"
  let ?first = "Line (NSPoint (x + r * TOP_RIGHT_P1) (y + S)) (NSPoint (x + S - r * TOP_RIGHT_P1) (y + S))"
  from assms obtain sg t where sg: "sg \<in> set (segments ?P)"
    and t: "0 \<le> t" "t \<le> 1" and p: "seg_point sg t = p"
    by (auto simp: on_contour_def)
  have "\<exists>sg' t'. sg' \<in> set (butlast (segments ?P)) \<and> 0 \<le> t' \<and> t' \<le> 1 \<and> seg_point sg' t' = p"
  proof (cases "sg \<in> set (butlast (segments ?P))")
    case True
    with t p show ?thesis by blast
  next
    case False
    have "seg_point sg t = NSPoint (x + r * TOP_RIGHT_P1) (y + S)"
      unfolding squircle_closing_segment [OF sg False] by (rule seg_point_degenerate)
    with p have "p = NSPoint (x + r * TOP_RIGHT_P1) (y + S)"
      by simp
    then have "seg_point ?first 0 = p" by simp
    moreover have "?first \<in> set (butlast (segments ?P))"
      by (simp add: segments_squircle_elements)
    ultimately show ?thesis by (intro exI [where x = ?first] exI [where x = 0]) simp
  qed
  then obtain sg' t' where sg': "sg' \<in> set (butlast (segments ?P))"
    and t': "0 \<le> t'" "t' \<le> 1" and p': "seg_point sg' t' = p"
    by blast
  from on_contourI [OF squircle_rot_segments [OF sg'] t']
  show ?thesis by (simp add: seg_point_rot p')
qed

lemma rot90_four: "rot90 c (rot90 c (rot90 c (rot90 c p))) = p"
  by (simp add: rot90_def)

lemma squircle_rotation_symmetric:
  "rotation_symmetric (squircle_elements r x (x + S) (y + S) y) (rect_center x y S S)"
  unfolding rotation_symmetric_def
proof (intro allI iffI)
  fix p
  let ?P = "squircle_elements r x (x + S) (y + S) y" and ?c = "rect_center x y S S"
  show "on_contour ?P (rot90 ?c p)" if "on_contour ?P p"
    using that by (rule squircle_rot_step)
  show "on_contour ?P p" if "on_contour ?P (rot90 ?c p)"
    using squircle_rot_step [OF squircle_rot_step [OF squircle_rot_step [OF that]]]
    by (simp add: rot90_four)
qed

text \<open>
  Claim C4, amended. For every origin and every width and height above zero the contour is
  closed and convex-cornered; when width and height are equal it is also carried onto
  itself by a quarter turn about the centre of its rectangle.
\<close>

theorem squircle_closed_convex_symmetric:
  assumes "0 < width" "0 < height"
  shows "closed_contour (create_squircle_path x y width height)
       \<and> convex_cornered (create_squircle_path x y width height)
       \<and> (width = height \<longrightarrow>
            rotation_symmetric (create_squircle_path x y width height)
              (rect_center x y width height))"
  by (simp add: create_squircle_path_def squircle_elements_closed squircle_convex_cornered
        squircle_rotation_symmetric)

lemma wide_right_edge_midpoint:
  "on_contour (create_squircle_path 0 0 4 1) (NSPoint 4 (1/2))"
  unfolding on_contour_def
proof (intro bexI exI conjI)
  have r: "limited_radius 4 1 = 22 / 100" using limited_radius_pos [of 4 1] by simp
  show "seg_point (Line (NSPoint 4 (1 - 22 / 100 * TOP_RIGHT_P1)) (NSPoint 4 (0 + 22 / 100 * TOP_RIGHT_P1))) (1/2)
          = NSPoint 4 (1/2)"
    by (simp add: diff_divide_distrib)
  show "Line (NSPoint 4 (1 - 22 / 100 * TOP_RIGHT_P1)) (NSPoint 4 (0 + 22 / 100 * TOP_RIGHT_P1))
          \<in> set (segments (create_squircle_path 0 0 4 1))"
    by (simp add: r create_squircle_path_def segments_squircle_elements)
qed simp_all

text \<open>
  Claim C4 says the three properties hold for every width and height above zero. For a
  4 by 1 rectangle at the origin the quarter turn fails: the midpoint \<open>(4, 1/2)\<close> of
  the right edge is on the contour, and its image \<open>(2, -3/2)\<close> lies outside the
  rectangle that holds the contour.
\<close>

theorem wide_squircle_not_symmetric_counterexample:
  "\<not> (closed_contour (create_squircle_path 0 0 4 1)
      \<and> convex_cornered (create_squircle_path 0 0 4 1)
      \<and> rotation_symmetric (create_squircle_path 0 0 4 1) (rect_center 0 0 4 1))"
proof
  assume "closed_contour (create_squircle_path 0 0 4 1)
      \<and> convex_cornered (create_squircle_path 0 0 4 1)
      \<and> rotation_symmetric (create_squircle_path 0 0 4 1) (rect_center 0 0 4 1)"
  then have "on_contour (create_squircle_path 0 0 4 1) (rot90 (rect_center 0 0 4 1) (NSPoint 4 (1/2)))"
    using wide_right_edge_midpoint by (simp add: rotation_symmetric_def)
  then have "in_rect 0 0 4 1 (rot90 (rect_center 0 0 4 1) (NSPoint 4 (1/2)))"
    by (intro on_contour_in_rect) simp_all
  then show False by (simp add: in_rect_def rot90_def rect_center_def)
qed

theorem squircle_closed_convex_symmetric_witness:
  "closed_contour (create_squircle_path 0 0 100 100)
   \<and> convex_cornered (create_squircle_path 0 0 100 100)
   \<and> rotation_symmetric (create_squircle_path 0 0 100 100) (rect_center 0 0 100 100)
   \<and> closed_contour (create_squircle_path 0 0 4 1)
   \<and> convex_cornered (create_squircle_path 0 0 4 1)"
proof -
  have h: "(0::real) < 100" "(0::real) < 4" "(0::real) < 1" by simp_all
  from squircle_closed_convex_symmetric [OF h(1) h(1), of 0 0]
       squircle_closed_convex_symmetric [OF h(2) h(3), of 0 0]
  show ?thesis by simp
qed

section \<open>The icon, the exported files and the manifest\<close>

lemma png_writes_append: "png_writes (xs @ ys) = png_writes xs @ png_writes ys"
  by (induction xs rule: png_writes.induct) simp_all

lemma text_writes_append: "text_writes (xs @ ys) = text_writes xs @ text_writes ys"
  by (induction xs rule: text_writes.induct) simp_all

lemma save_png_default:
  "save_png icon p s None =
     [ WriteToFile (str_path p) (exported_bitmap icon s),
       Print (''  Created: '' @ name p @ '' ('' @ str_int s @ ''x'' @ str_int s @ '')'') ]"
  by (simp add: save_png_def exported_bitmap_def graphicsContextWithBitmapImageRep_def
        setImageInterpolation_def drawInRect_fromRect_operation_fraction_def)

lemma png_writes_export_loop:
  "png_writes (export_loop icon dir szs) =
     map (\<lambda>s. (str_path (joinpath dir (''appicon_'' @ str_int s @ ''.png'')),
               exported_bitmap icon s)) szs"
  by (induction szs) (simp_all add: save_png_default png_writes_append Let_def)

lemma text_writes_export_loop: "text_writes (export_loop icon dir szs) = []"
  by (induction szs) (simp_all add: save_png_default text_writes_append Let_def)

lemma main_missing:
  assumes "\<not> path_exists w (source_path_of project_root)"
  shows "main w project_root =
           (Inr (Some 1),
            [Print (''Error: Source image not found: '' @ str_path (source_path_of project_root))])"
  using assms by (simp add: main_def source_path_of_def Let_def)

lemma main_undecodable:
  assumes "path_exists w (source_path_of project_root)"
    and "initWithContentsOfFile w (str_path (source_path_of project_root)) = None"
  shows "main w project_root =
           (Inl (FileNotFoundError
                  (''Could not load image: '' @ str_path (source_path_of project_root))),
            [ Mkdir (output_dir_of project_root),
              Print (''Loading source image: '' @ str_path (source_path_of project_root)),
              ReadImage (str_path (source_path_of project_root)) ])"
  using assms
  by (simp add: main_def source_path_of_def output_dir_of_def load_source_image_def Let_def)

lemma main_decoded:
  assumes "path_exists w (source_path_of project_root)"
    and "initWithContentsOfFile w (str_path (source_path_of project_root)) = Some source_image"
  shows "main w project_root =
           (Inr None,
            [ Mkdir (output_dir_of project_root),
              Print (''Loading source image: '' @ str_path (source_path_of project_root)),
              ReadImage (str_path (source_path_of project_root)),
              Print ''Creating icon with squircle mask...'',
              Print (CHR 0x0A # ''Generating PNG icons...'') ]
            @ export_loop (create_icon source_image 1024) (output_dir_of project_root) sizes
            @ [ WriteText (joinpath (output_dir_of project_root) ''Contents.json'') manifest_text,
                Print ''  Created: Contents.json'',
                Print (CHR 0x0A # ''All icons generated successfully!'') ])"
  using assms
  by (simp add: main_def source_path_of_def output_dir_of_def load_source_image_def
        manifest_text_def Let_def)

lemma main_cases:
  obtains (missing) "\<not> path_exists w (source_path_of project_root)"
  | (undecodable) "path_exists w (source_path_of project_root)"
      "initWithContentsOfFile w (str_path (source_path_of project_root)) = None"
  | (decoded) source_image where "path_exists w (source_path_of project_root)"
      "initWithContentsOfFile w (str_path (source_path_of project_root)) = Some source_image"
  by (cases "initWithContentsOfFile w (str_path (source_path_of project_root))") auto

lemma str_int_sizes:
  "map str_int sizes = [''16'', ''32'', ''64'', ''128'', ''256'', ''512'', ''1024'']"
  unfolding sizes_def by code_simp

text \<open>
  Claim C5. For every canvas size above zero, \<open>create_icon\<close> uses an icon box of side
  0.8125 times the canvas size, centred by the margin (canvas size minus icon size) over 2;
  it draws the source image into that box from the source rectangle inset by 15 percent of
  the source width on each edge, then strokes a highlight squircle (white, alpha 0.5) and a
  shadow squircle (black, alpha 0.25), each offset by 0.004 times the canvas size and of line
  width 0.008 times the canvas size; all three are painted under the one clip of the
  squircle mask on the icon box.
\<close>

theorem create_icon_drawing:
  assumes "0 < canvasSize"
  shows "let iconSize = real_of_int canvasSize * 0.8125;
             margin = (real_of_int canvasSize - iconSize) / 2;
             mask = create_squircle_path margin margin iconSize iconSize;
             offset = real_of_int canvasSize * 0.004;
             lineWidth = real_of_int canvasSize * 0.008;
             inset = 0.15 * size_width source
         in create_icon source canvasSize =
              \<lparr> image_size = (real_of_int canvasSize, real_of_int canvasSize),
                representation =
                  \<lparr> pixelsWide = canvasSize, pixelsHigh = canvasSize,
                    painted =
                      [ DrawImage source
                          (NSMakeRect margin margin iconSize iconSize)
                          (NSMakeRect inset inset (size_width source - 2 * inset)
                             (size_height source - 2 * inset))
                          NSCompositingOperationSourceOver 1 [mask],
                        StrokePath
                          (create_squircle_path (margin + offset) (margin - offset) iconSize iconSize)
                          lineWidth (ColorWithCalibratedRGBA 1 1 1 0.5) [mask],
                        StrokePath
                          (create_squircle_path (margin - offset) (margin + offset) iconSize iconSize)
                          lineWidth (ColorWithCalibratedRGBA 0 0 0 0.25) [mask] ] \<rparr> \<rparr>"
  by (simp add: create_icon_def Let_def graphicsContextWithBitmapImageRep_def
        setShouldAntialias_def saveGraphicsState_def restoreGraphicsState_def addClip_def
        drawInRect_fromRect_operation_fraction_def setStroke_def stroke_def mult.commute)

theorem create_icon_drawing_witness:
  "create_icon \<lparr> size_width = 1000, size_height = 1000 \<rparr> 1024 =
     \<lparr> image_size = (1024, 1024),
       representation =
         \<lparr> pixelsWide = 1024, pixelsHigh = 1024,
           painted =
             [ DrawImage \<lparr> size_width = 1000, size_height = 1000 \<rparr>
                 (NSMakeRect 96 96 832 832) (NSMakeRect 150 150 700 700)
                 NSCompositingOperationSourceOver 1 [create_squircle_path 96 96 832 832],
               StrokePath (create_squircle_path (96 + 4.096) (96 - 4.096) 832 832)
                 8.192 (ColorWithCalibratedRGBA 1 1 1 0.5) [create_squircle_path 96 96 832 832],
               StrokePath (create_squircle_path (96 - 4.096) (96 + 4.096) 832 832)
                 8.192 (ColorWithCalibratedRGBA 0 0 0 0.25) [create_squircle_path 96 96 832 832] ] \<rparr> \<rparr>"
proof -
  have h: "(0::int) < 1024" by simp
  from create_icon_drawing [OF h, of "\<lparr> size_width = 1000, size_height = 1000 \<rparr>"]
  show ?thesis by (simp add: Let_def)
qed

text \<open>
  Claim C6 says that \<open>main\<close> writes the seven PNG files whenever the source image exists.
  A source file that exists and that the toolkit cannot decode makes \<open>load_source_image\<close>
  raise before the export loop: no PNG file is written.
\<close>

theorem undecodable_source_counterexample:
  "path_exists world_undecodable (source_path_of [''/'', ''repo''])
   \<and> png_writes (snd (main world_undecodable [''/'', ''repo''])) = []
   \<and> length (png_writes (snd (main world_undecodable [''/'', ''repo''])))
       \<noteq> length sizes"
proof -
  have e: "path_exists world_undecodable (source_path_of [''/'', ''repo''])"
    and d: "initWithContentsOfFile world_undecodable
              (str_path (source_path_of [''/'', ''repo''])) = None"
    by (simp_all add: world_undecodable_def)
  show ?thesis
    by (simp add: main_undecodable [OF e d] e sizes_def)
qed

text \<open>
  Claim C6, amended. When the source image exists and the toolkit decodes it, \<open>main\<close>
  writes exactly one PNG file per size of the list 16, 32, 64, 128, 256, 512, 1024, named
  \<open>appicon_<size>.png\<close> in the output directory, and the bitmap written for a size is
  size by size pixels; the export loop over the sizes 16 and 32 writes exactly two files,
  of 16 by 16 and 32 by 32 pixels.
\<close>

theorem main_writes_pngs:
  assumes "path_exists w (source_path_of project_root)"
    and "initWithContentsOfFile w (str_path (source_path_of project_root)) = Some source_image"
  shows "png_writes (snd (main w project_root)) =
           map (\<lambda>s. (str_path (joinpath (output_dir_of project_root)
                                  (''appicon_'' @ str_int s @ ''.png'')),
                     exported_bitmap (create_icon source_image 1024) s))
             [16, 32, 64, 128, 256, 512, 1024]
       \<and> map (\<lambda>s. ''appicon_'' @ str_int s @ ''.png'') [16, 32, 64, 128, 256, 512, 1024]
           = [''appicon_16.png'', ''appicon_32.png'', ''appicon_64.png'', ''appicon_128.png'',
              ''appicon_256.png'', ''appicon_512.png'', ''appicon_1024.png'']
       \<and> map (\<lambda>(f, b). (pixelsWide b, pixelsHigh b)) (png_writes (snd (main w project_root)))
           = [(16, 16), (32, 32), (64, 64), (128, 128), (256, 256), (512, 512), (1024, 1024)]
       \<and> map (\<lambda>(f, b). (pixelsWide b, pixelsHigh b)) (png_writes (export_loop icon dir [16, 32]))
           = [(16, 16), (32, 32)]"
proof -
  have w: "png_writes (snd (main w project_root)) =
             map (\<lambda>s. (str_path (joinpath (output_dir_of project_root)
                                    (''appicon_'' @ str_int s @ ''.png'')),
                       exported_bitmap (create_icon source_image 1024) s))
               [16, 32, 64, 128, 256, 512, 1024]"
  proof -
    have "png_writes (snd (main w project_root)) =
            png_writes (export_loop (create_icon source_image 1024)
                          (output_dir_of project_root) sizes)"
      by (simp add: main_decoded [OF assms] png_writes_append)
    then show ?thesis by (simp only: png_writes_export_loop sizes_def)
  qed
  have n: "map (\<lambda>s. ''appicon_'' @ str_int s @ ''.png'') [16, 32, 64, 128, 256, 512, 1024]
             = [''appicon_16.png'', ''appicon_32.png'', ''appicon_64.png'', ''appicon_128.png'',
                ''appicon_256.png'', ''appicon_512.png'', ''appicon_1024.png'']"
    using str_int_sizes by (simp add: sizes_def)
  have d: "map (\<lambda>(f, b). (pixelsWide b, pixelsHigh b)) (png_writes (snd (main w project_root)))
             = [(16, 16), (32, 32), (64, 64), (128, 128), (256, 256), (512, 512), (1024, 1024)]"
    by (simp add: w exported_bitmap_def)
  have l: "map (\<lambda>(f, b). (pixelsWide b, pixelsHigh b)) (png_writes (export_loop icon dir [16, 32]))
             = [(16, 16), (32, 32)]"
    by (simp add: save_png_default png_writes_append exported_bitmap_def Let_def)
  from w n d l show ?thesis by (intro conjI)
qed

theorem main_writes_pngs_witness:
  "map (\<lambda>(f, b). (f, pixelsWide b, pixelsHigh b))
     (png_writes (snd (main world_with_source [''/'', ''repo''])))
   = [ (''/repo/Sources/Sessylph/Resources/Assets.xcassets/AppIcon.appiconset/appicon_16.png'', 16, 16),
       (''/repo/Sources/Sessylph/Resources/Assets.xcassets/AppIcon.appiconset/appicon_32.png'', 32, 32),
       (''/repo/Sources/Sessylph/Resources/Assets.xcassets/AppIcon.appiconset/appicon_64.png'', 64, 64),
       (''/repo/Sources/Sessylph/Resources/Assets.xcassets/AppIcon.appiconset/appicon_128.png'', 128, 128),
       (''/repo/Sources/Sessylph/Resources/Assets.xcassets/AppIcon.appiconset/appicon_256.png'', 256, 256),
       (''/repo/Sources/Sessylph/Resources/Assets.xcassets/AppIcon.appiconset/appicon_512.png'', 512, 512),
       (''/repo/Sources/Sessylph/Resources/Assets.xcassets/AppIcon.appiconset/appicon_1024.png'', 1024, 1024) ]"
proof -
  have e: "path_exists world_with_source (source_path_of [''/'', ''repo''])"
    and d: "initWithContentsOfFile world_with_source (str_path (source_path_of [''/'', ''repo'']))
              = Some \<lparr> size_width = 1024, size_height = 1024 \<rparr>"
    by (simp_all add: world_with_source_def)
  have s: "str_int 16 = ''16''" "str_int 32 = ''32''" "str_int 64 = ''64''" "str_int 128 = ''128''"
    "str_int 256 = ''256''" "str_int 512 = ''512''" "str_int 1024 = ''1024''"
    using str_int_sizes by (simp_all add: sizes_def)
  from main_writes_pngs [OF e d]
  show ?thesis
    by (simp add: s exported_bitmap_def output_dir_of_def joinpath_def str_path_def)
qed

lemma main_result:
  "fst (main w project_root) = Inr None \<longleftrightarrow>
     path_exists w (source_path_of project_root)
     \<and> initWithContentsOfFile w (str_path (source_path_of project_root)) \<noteq> None"
proof (cases rule: main_cases [of w project_root])
  case missing
  then show ?thesis by (simp add: main_missing)
next
  case undecodable
  then show ?thesis by (simp add: main_undecodable)
next
  case (decoded source_image)
  then show ?thesis by (simp add: main_decoded)
qed

lemma main_text_writes:
  "text_writes (snd (main w project_root)) =
     (if fst (main w project_root) = Inr None
      then [(joinpath (output_dir_of project_root) ''Contents.json'', manifest_text)]
      else [])"
proof (cases rule: main_cases [of w project_root])
  case missing
  then show ?thesis by (simp add: main_missing)
next
  case undecodable
  then show ?thesis by (simp add: main_undecodable)
next
  case (decoded source_image)
  then show ?thesis
    by (simp add: main_decoded text_writes_append text_writes_export_loop)
qed

lemma contents_sizes:
  "contents sizes =
     JObject
      [ (''images'',
         JArray
          [ JObject [(''filename'', JString ''appicon_16.png''), (''idiom'', JString ''mac''),
                     (''size'', JString ''16x16''), (''scale'', JString ''1x'')],
            JObject [(''filename'', JString ''appicon_32.png''), (''idiom'', JString ''mac''),
                     (''size'', JString ''32x32''), (''scale'', JString ''1x'')],
            JObject [(''filename'', JString ''appicon_64.png''), (''idiom'', JString ''mac''),
                     (''size'', JString ''64x64''), (''scale'', JString ''1x'')],
            JObject [(''filename'', JString ''appicon_128.png''), (''idiom'', JString ''mac''),
                     (''size'', JString ''128x128''), (''scale'', JString ''1x'')],
            JObject [(''filename'', JString ''appicon_256.png''), (''idiom'', JString ''mac''),
                     (''size'', JString ''256x256''), (''scale'', JString ''1x'')],
            JObject [(''filename'', JString ''appicon_512.png''), (''idiom'', JString ''mac''),
                     (''size'', JString ''512x512''), (''scale'', JString ''1x'')],
            JObject [(''filename'', JString ''appicon_1024.png''), (''idiom'', JString ''mac''),
                     (''size'', JString ''1024x1024''), (''scale'', JString ''1x'')] ]),
        (''info'', JObject [(''author'', JString ''xcode''), (''version'', JInt 1)]) ]"
proof -
  have s: "str_int 16 = ''16''" "str_int 32 = ''32''" "str_int 64 = ''64''" "str_int 128 = ''128''"
    "str_int 256 = ''256''" "str_int 512 = ''512''" "str_int 1024 = ''1024''"
    using str_int_sizes by (simp_all add: sizes_def)
  show ?thesis by (simp add: contents_def manifest_entry_def sizes_def s)
qed

lemma loads_manifest_text: "loads manifest_text = Some (contents sizes)"
  unfolding manifest_text_def by code_simp

text \<open>
  Claim C7. The manifest \<open>main\<close> writes round-trips: parsing the text written to
  \<open>Contents.json\<close> gives an object whose \<open>images\<close> array has one entry per exported
  size, in order, the entry for size \<open>N\<close> being filename \<open>appicon_N.png\<close>, idiom
  \<open>mac\<close>, size \<open>NxN\<close>, scale \<open>1x\<close>, and whose \<open>info\<close> object is author \<open>xcode\<close>,
  version 1. A run of \<open>main\<close> that reaches its end writes it exactly once (and a run
  that stops early does not write it).
\<close>

theorem manifest_round_trip:
  "text_writes (snd (main w project_root)) =
     (if fst (main w project_root) = Inr None
      then [(joinpath (output_dir_of project_root) ''Contents.json'', manifest_text)]
      else [])
   \<and> loads manifest_text =
       Some (JObject
              [ (''images'',
                 JArray (map (\<lambda>N. JObject
                                   [ (''filename'', JString (''appicon_'' @ str_int N @ ''.png'')),
                                     (''idiom'', JString ''mac''),
                                     (''size'', JString (str_int N @ ''x'' @ str_int N)),
                                     (''scale'', JString ''1x'') ])
                           sizes)),
                (''info'', JObject [(''author'', JString ''xcode''), (''version'', JInt 1)]) ])
   \<and> loads manifest_text =
       Some (JObject
              [ (''images'',
                 JArray
                  [ JObject [(''filename'', JString ''appicon_16.png''), (''idiom'', JString ''mac''),
                             (''size'', JString ''16x16''), (''scale'', JString ''1x'')],
                    JObject [(''filename'', JString ''appicon_32.png''), (''idiom'', JString ''mac''),
                             (''size'', JString ''32x32''), (''scale'', JString ''1x'')],
                    JObject [(''filename'', JString ''appicon_64.png''), (''idiom'', JString ''mac''),
                             (''size'', JString ''64x64''), (''scale'', JString ''1x'')],
                    JObject [(''filename'', JString ''appicon_128.png''), (''idiom'', JString ''mac''),
                             (''size'', JString ''128x128''), (''scale'', JString ''1x'')],
                    JObject [(''filename'', JString ''appicon_256.png''), (''idiom'', JString ''mac''),
                             (''size'', JString ''256x256''), (''scale'', JString ''1x'')],
                    JObject [(''filename'', JString ''appicon_512.png''), (''idiom'', JString ''mac''),
                             (''size'', JString ''512x512''), (''scale'', JString ''1x'')],
                    JObject [(''filename'', JString ''appicon_1024.png''), (''idiom'', JString ''mac''),
                             (''size'', JString ''1024x1024''), (''scale'', JString ''1x'')] ]),
                (''info'', JObject [(''author'', JString ''xcode''), (''version'', JInt 1)]) ])"
proof (intro conjI)
  show "text_writes (snd (main w project_root)) =
     (if fst (main w project_root) = Inr None
      then [(joinpath (output_dir_of project_root) ''Contents.json'', manifest_text)]
      else [])"
    by (rule main_text_writes)
  show "loads manifest_text =
       Some (JObject
              [ (''images'',
                 JArray (map (\<lambda>N. JObject
                                   [ (''filename'', JString (''appicon_'' @ str_int N @ ''.png'')),
                                     (''idiom'', JString ''mac''),
                                     (''size'', JString (str_int N @ ''x'' @ str_int N)),
                                     (''scale'', JString ''1x'') ])
                           sizes)),
                (''info'', JObject [(''author'', JString ''xcode''), (''version'', JInt 1)]) ])"
    unfolding loads_manifest_text by (simp add: contents_def manifest_entry_def)
  show "loads manifest_text =
       Some (JObject
              [ (''images'',
                 JArray
                  [ JObject [(''filename'', JString ''appicon_16.png''), (''idiom'', JString ''mac''),
                             (''size'', JString ''16x16''), (''scale'', JString ''1x'')],
                    JObject [(''filename'', JString ''appicon_32.png''), (''idiom'', JString ''mac''),
                             (''size'', JString ''32x32''), (''scale'', JString ''1x'')],
                    JObject [(''filename'', JString ''appicon_64.png''), (''idiom'', JString ''mac''),
                             (''size'', JString ''64x64''), (''scale'', JString ''1x'')],
                    JObject [(''filename'', JString ''appicon_128.png''), (''idiom'', JString ''mac''),
                             (''size'', JString ''128x128''), (''scale'', JString ''1x'')],
                    JObject [(''filename'', JString ''appicon_256.png''), (''idiom'', JString ''mac''),
                             (''size'', JString ''256x256''), (''scale'', JString ''1x'')],
                    JObject [(''filename'', JString ''appicon_512.png''), (''idiom'', JString ''mac''),
                             (''size'', JString ''512x512''), (''scale'', JString ''1x'')],
                    JObject [(''filename'', JString ''appicon_1024.png''), (''idiom'', JString ''mac''),
                             (''size'', JString ''1024x1024''), (''scale'', JString ''1x'')] ]),
                (''info'', JObject [(''author'', JString ''xcode''), (''version'', JInt 1)]) ])"
    unfolding loads_manifest_text contents_sizes by (rule refl)
qed

theorem manifest_round_trip_witness:
  "text_writes (snd (main world_with_source [''/'', ''repo''])) =
     [([''/'', ''repo'', ''Sources'', ''Sessylph'', ''Resources'', ''Assets.xcassets'',
        ''AppIcon.appiconset'', ''Contents.json''], manifest_text)]
   \<and> length (text_writes (snd (main world_with_source [''/'', ''repo'']))) = 1
   \<and> text_writes (snd (main world_without_source [''/'', ''repo''])) = []"
proof -
  have a: "fst (main world_with_source [''/'', ''repo'']) = Inr None"
    by (simp add: main_result world_with_source_def)
  have b: "fst (main world_without_source [''/'', ''repo'']) \<noteq> Inr None"
    by (simp add: main_result world_without_source_def)
  from manifest_round_trip [of world_with_source "[''/'', ''repo'']"]
       manifest_round_trip [of world_without_source "[''/'', ''repo'']"] a b
  show ?thesis by (simp add: output_dir_of_def joinpath_def)
qed

text \<open>
  Claim C8. If the source image file does not exist, \<open>main\<close> prints an error message and
  returns 1, having loaded nothing and changed nothing in the file system: no PNG file and no
  \<open>Contents.json\<close> is written, and the output directory is not created.
\<close>

theorem main_missing_source:
  assumes "\<not> path_exists w (source_path_of project_root)"
  shows "main w project_root =
           (Inr (Some 1),
            [Print (''Error: Source image not found: '' @ str_path (source_path_of project_root))])
       \<and> filter is_fs_change (snd (main w project_root)) = []
       \<and> png_writes (snd (main w project_root)) = []
       \<and> text_writes (snd (main w project_root)) = []
       \<and> Mkdir d \<notin> set (snd (main w project_root))
       \<and> ReadImage f \<notin> set (snd (main w project_root))"
  by (simp add: main_missing [OF assms])

theorem main_missing_source_witness:
  "main world_without_source [''/'', ''repo''] =
     (Inr (Some 1), [Print ''Error: Source image not found: /repo/images/appiconbase.png''])
   \<and> filter is_fs_change (snd (main world_without_source [''/'', ''repo''])) = []"
proof -
  have h: "\<not> path_exists world_without_source (source_path_of [''/'', ''repo''])"
    by (simp add: world_without_source_def)
  from main_missing_source [OF h]
  show ?thesis by (simp add: source_path_of_def joinpath_def str_path_def)
qed

text \<open>
  Claim C9. \<open>load_source_image\<close> raises its error if and only if the toolkit's image
  initializer returns nothing for the path, and otherwise returns the decoded image.
\<close>

theorem load_source_image_raises_iff:
  "((\<exists>e. load_source_image toolkit source_path = Inl e)
      \<longleftrightarrow> toolkit (str_path source_path) = None)
   \<and> (toolkit (str_path source_path) = None \<longrightarrow>
        load_source_image toolkit source_path
          = Inl (FileNotFoundError (''Could not load image: '' @ str_path source_path)))
   \<and> (\<forall>decoded. toolkit (str_path source_path) = Some decoded \<longrightarrow>
        load_source_image toolkit source_path = Inr decoded)"
  by (auto simp: load_source_image_def split: option.splits)

theorem load_source_image_raises_iff_witness:
  "load_source_image (\<lambda>f. None) [''images'', ''appiconbase.png'']
     = Inl (FileNotFoundError ''Could not load image: images/appiconbase.png'')
   \<and> load_source_image (\<lambda>f. Some \<lparr> size_width = 1024, size_height = 1024 \<rparr>)
       [''images'', ''appiconbase.png'']
     = Inr \<lparr> size_width = 1024, size_height = 1024 \<rparr>"
  using load_source_image_raises_iff [of "\<lambda>f. None" "[''images'', ''appiconbase.png'']"]
        load_source_image_raises_iff
          [of "\<lambda>f. Some \<lparr> size_width = 1024, size_height = 1024 \<rparr>"
              "[''images'', ''appiconbase.png'']"]
  by (simp add: str_path_def)

text \<open>
  Claim C10. \<open>save_png\<close> called without a \<open>source_size\<close> draws the image it is given,
  whatever that image is, from the source rectangle \<open>(0, 0, 1024, 1024)\<close>; the export loop,
  its only caller, never passes a \<open>source_size\<close>, so every bitmap it writes, and every
  bitmap \<open>main\<close> writes, was drawn from that rectangle.
\<close>

theorem save_png_source_rectangle:
  "save_png image' p s None =
     [ WriteToFile (str_path p)
         \<lparr> pixelsWide = s, pixelsHigh = s,
           painted = [DrawImage image' (NSMakeRect 0 0 (real_of_int s) (real_of_int s))
                        (NSMakeRect 0 0 1024 1024) NSCompositingOperationSourceOver 1 []] \<rparr>,
       Print (''  Created: '' @ name p @ '' ('' @ str_int s @ ''x'' @ str_int s @ '')'') ]
   \<and> map (\<lambda>(f, b). source_rects (painted b)) (png_writes (export_loop icon dir szs))
       = map (\<lambda>s. [NSMakeRect 0 0 1024 1024]) szs
   \<and> map (\<lambda>(f, b). source_rects (painted b)) (png_writes (snd (main w project_root)))
       = (if fst (main w project_root) = Inr None
          then map (\<lambda>s. [NSMakeRect 0 0 1024 1024]) sizes else [])"
proof (intro conjI)
  show "save_png image' p s None =
     [ WriteToFile (str_path p)
         \<lparr> pixelsWide = s, pixelsHigh = s,
           painted = [DrawImage image' (NSMakeRect 0 0 (real_of_int s) (real_of_int s))
                        (NSMakeRect 0 0 1024 1024) NSCompositingOperationSourceOver 1 []] \<rparr>,
       Print (''  Created: '' @ name p @ '' ('' @ str_int s @ ''x'' @ str_int s @ '')'') ]"
    by (simp add: save_png_default exported_bitmap_def)
  show l: "map (\<lambda>(f, b). source_rects (painted b)) (png_writes (export_loop icon dir szs))
       = map (\<lambda>s. [NSMakeRect 0 0 1024 1024]) szs" for icon :: "source_image ns_image" and dir szs
    by (simp add: png_writes_export_loop exported_bitmap_def comp_def)
  show "map (\<lambda>(f, b). source_rects (painted b)) (png_writes (snd (main w project_root)))
       = (if fst (main w project_root) = Inr None
          then map (\<lambda>s. [NSMakeRect 0 0 1024 1024]) sizes else [])"
  proof (cases rule: main_cases [of w project_root])
    case missing
    then show ?thesis by (simp add: main_missing)
  next
    case undecodable
    then show ?thesis by (simp add: main_undecodable)
  next
    case (decoded source_image)
    then show ?thesis
      by (simp add: main_decoded png_writes_append l)
  qed
qed

theorem save_png_source_rectangle_witness:
  "map (\<lambda>(f, b). source_rects (painted b))
     (png_writes (snd (main world_with_source [''/'', ''repo''])))
   = [ [NSMakeRect 0 0 1024 1024], [NSMakeRect 0 0 1024 1024], [NSMakeRect 0 0 1024 1024],
       [NSMakeRect 0 0 1024 1024], [NSMakeRect 0 0 1024 1024], [NSMakeRect 0 0 1024 1024],
       [NSMakeRect 0 0 1024 1024] ]"
proof -
  have a: "fst (main world_with_source [''/'', ''repo'']) = Inr None"
    by (simp add: main_result world_with_source_def)
  from save_png_source_rectangle [of _ _ _ _ _ _ world_with_source "[''/'', ''repo'']"] a
  show ?thesis by (simp add: sizes_def)
qed

end
